theory Spec2Isabelle
  imports Complex_Main
begin

section \<open>Python values and faults\<close>

text \<open>
  The renderers of \<^verbatim>\<open>spikeplots.py\<close> raise no exception of their own; every fault is one
  of the interpreter's or of NumPy's: a missing dictionary key, an index past the end of
  a list, an array built from rows of unequal length, and \<^verbatim>\<open>len\<close> of a scalar.
  A call that faults is the value \<open>Inl e\<close>; the surface as it was left by the
  aborted call is not part of that value.
\<close>

datatype py_error = KeyError | IndexError | ValueError | TypeError

definition bind_err :: "py_error + 'a \<Rightarrow> ('a \<Rightarrow> py_error + 'b) \<Rightarrow> py_error + 'b" where
  "bind_err r f = (case r of Inl e \<Rightarrow> Inl e | Inr v \<Rightarrow> f v)"

text \<open>\<^verbatim>\<open>d[k]\<close> on a dictionary and \<^verbatim>\<open>xs[i]\<close> on a list, for an index that is not negative.\<close>

definition dict_get :: "('k \<rightharpoonup> 'v) \<Rightarrow> 'k \<Rightarrow> py_error + 'v" where
  "dict_get d k = (case d k of None \<Rightarrow> Inl KeyError | Some v \<Rightarrow> Inr v)"

definition list_get :: "'a list \<Rightarrow> nat \<Rightarrow> py_error + 'a" where
  "list_get xs i = (if i < length xs then Inr (xs ! i) else Inl IndexError)"

text \<open>\<^verbatim>\<open>if x is None: x = d\<close>, the way the renderers fill in an argument that was not given.\<close>

definition if_none :: "'a option \<Rightarrow> 'a \<Rightarrow> 'a" where
  "if_none x d = (case x of None \<Rightarrow> d | Some v \<Rightarrow> v)"

section \<open>The geometry helper\<close>

text \<open>
  One entry of \<^verbatim>\<open>d_sta\<close>: the fit of a cluster's spike-triggered average. The source reads
  it as a dictionary with the string keys below; the record fixes that every entry has
  all of them. The number type is a parameter: \<^verbatim>\<open>get_rf_ells\<close> only multiplies.
\<close>

record 'a sta_fit =
  x0 :: 'a
  y0 :: 'a
  SigmaX :: 'a
  SigmaY :: 'a
  Theta :: 'a
  RedTimeCourse :: "'a list"
  BlueTimeCourse :: "'a list"

text \<open>The arguments of matplotlib's \<^verbatim>\<open>Ellipse(xy, width, height, angle)\<close>.\<close>

record 'a ellipse =
  center :: "'a \<times> 'a"
  width :: 'a
  height :: 'a
  angle :: 'a

text \<open>
  The element expression of the list comprehension in \<^verbatim>\<open>get_rf_ells\<close>, for the entry
  \<^verbatim>\<open>d_sta[n_ID]\<close>. Python's \<^verbatim>\<open>a*2*g*m\<close> associates to the left.
\<close>

definition rf_ell :: "('a::{times,numeral}) sta_fit \<Rightarrow> 'a \<Rightarrow> 'a \<Rightarrow> 'a ellipse" where
  "rf_ell fit NOISE_GRID_SIZE sd_mult =
     \<lparr> center = (x0 fit * NOISE_GRID_SIZE, y0 fit * NOISE_GRID_SIZE),
       width = SigmaX fit * 2 * NOISE_GRID_SIZE * sd_mult,
       height = SigmaY fit * 2 * NOISE_GRID_SIZE * sd_mult,
       angle = Theta fit \<rparr>"

text \<open>
  \<^verbatim>\<open>get_rf_ells(ls_cells, d_sta, NOISE_GRID_SIZE, sd_mult)\<close>: the comprehension runs over
  \<^verbatim>\<open>ls_cells\<close> from the left and stops at the first \<^verbatim>\<open>d_sta[n_ID]\<close> that has no entry.
\<close>

fun get_rf_ells ::
  "int list \<Rightarrow> (int \<rightharpoonup> ('a::{times,numeral}) sta_fit) \<Rightarrow> 'a \<Rightarrow> 'a \<Rightarrow> py_error + 'a ellipse list" where
  "get_rf_ells [] d_sta NOISE_GRID_SIZE sd_mult = Inr []"
| "get_rf_ells (n_ID # ls_cells) d_sta NOISE_GRID_SIZE sd_mult =
     bind_err (dict_get d_sta n_ID) (\<lambda>fit.
     bind_err (get_rf_ells ls_cells d_sta NOISE_GRID_SIZE sd_mult) (\<lambda>ells.
     Inr (rf_ell fit NOISE_GRID_SIZE sd_mult # ells)))"

section \<open>Strings of numbers\<close>

text \<open>
  \<^verbatim>\<open>str(n)\<close> and the \<^verbatim>\<open>{n}\<close> of an f-string, for an integer: its decimal digits, with a
  minus sign when it is negative.
\<close>

definition digit_char :: "nat \<Rightarrow> char" where
  "digit_char d = ''0123456789'' ! d"

function str_nat :: "nat \<Rightarrow> string" where
  "str_nat n = (if n < 10 then [digit_char n] else str_nat (n div 10) @ [digit_char (n mod 10)])"
  by pat_completeness auto
termination
  by (relation "measure id") auto

declare str_nat.simps [simp del]

definition str_int :: "int \<Rightarrow> string" where
  "str_int i = (if i < 0 then CHR ''-'' # str_nat (nat (- i)) else str_nat (nat i))"

section \<open>The rendering surface\<close>

text \<open>
  A colour argument as the renderers pass it on: a string (\<^verbatim>\<open>'k'\<close>, \<^verbatim>\<open>'C0'\<close>) or a sequence
  of numbers. A sequence that the caller gives is a tuple (an RGB triple); the only
  array is the one that \<^verbatim>\<open>np.random.rand(3)\<close> returns, which is never tested for truth.
  \<^verbatim>\<open>facecolor\<close> of \<^verbatim>\<open>plot_rfs\<close> is either one colour (a tuple or a string, the two types its
  \<^verbatim>\<open>isinstance\<close> test names) or anything else, which the source indexes per ellipse: a list
  of colours.
\<close>

datatype color = ColorStr string | ColorSeq "real list"

datatype facecolors = Uniform color | PerCell "color list"

text \<open>
  An ellipse as it is drawn: the geometry and the style that \<^verbatim>\<open>plot_rfs\<close> sets on it
  (\<^verbatim>\<open>set_alpha\<close>, \<^verbatim>\<open>set_edgecolor\<close>, \<^verbatim>\<open>set_facecolor\<close>, \<^verbatim>\<open>set_linewidth\<close>).
\<close>

record patch =
  p_ellipse :: "real ellipse"
  p_alpha :: real
  p_edgecolor :: color
  p_facecolor :: color
  p_linewidth :: real

text \<open>
  What a NumPy reduction along axis 0 hands to the plotting calls: a vector of numbers,
  a vector of \<open>k\<close> NaNs (the mean of a matrix with no rows and \<open>k\<close> columns), or the
  scalar NaN (the mean of an empty one-dimensional array).
\<close>

datatype ydata = Vec "real list" | NaNVec nat | NaNScalar

record line2d =
  l_xdata :: "real list option"
  l_ydata :: ydata
  l_color :: color
  l_marker :: "string option"
  l_label :: "string option"
  l_linewidth :: "real option"
  l_alpha :: "real option"

record band =
  b_xdata :: "real list"
  b_lower :: ydata
  b_upper :: ydata
  b_color :: color
  b_alpha :: real

text \<open>
  An \<^verbatim>\<open>Axes\<close>, as far as the renderers write to it: the value of each property they set
  and the list of what they draw, in drawing order. Calls into matplotlib are recorded,
  not interpreted (a shared axis, the checks matplotlib makes on its arguments and the
  figure-level caption of \<^verbatim>\<open>f.text\<close> are outside the model).
\<close>

record axes =
  xlim :: "real \<times> real"
  ylim :: "real \<times> real"
  patches :: "patch list"
  texts :: "(real \<times> real \<times> string) list"
  lines :: "line2d list"
  bands :: "band list"
  hlines :: "real list"
  title :: string
  xlabel :: string
  ylabel :: string
  xticks :: "real list option"
  yticks :: "real list option"
  legend :: bool

text \<open>The axes of a fresh \<^verbatim>\<open>plt.subplots\<close>: nothing drawn, matplotlib's unit limits.\<close>

definition new_axes :: axes where
  "new_axes = \<lparr> xlim = (0, 1), ylim = (0, 1), patches = [], texts = [], lines = [],
     bands = [], hlines = [], title = [], xlabel = [], ylabel = [],
     xticks = None, yticks = None, legend = False \<rparr>"

section \<open>The data container and the random generator\<close>

record crf_table =
  contrast :: "real list"
  cluster_id :: "int list"
  amp_4Hz :: "real list list"

text \<open>
  The attributes of \<^verbatim>\<open>SpikeOutputs\<close> that the renderers read. \<^verbatim>\<open>types.d_main_IDs\<close> is a
  dictionary whose key order matters (\<^verbatim>\<open>list(d_IDs.keys())\<close>): an association list with
  distinct keys, looked up with \<open>map_of\<close>.
\<close>

record spikeoutputs =
  so_NOISE_GRID_SIZE :: real
  so_d_sta :: "int \<rightharpoonup> real sta_fit"
  so_d_main_IDs :: "(string \<times> int list) list"
  so_ls_RGC_labels :: "string list"
  so_d_crf :: crf_table

text \<open>
  \<^verbatim>\<open>np.random.rand(3)\<close> reads and advances NumPy's global generator, a state that is no
  argument of any renderer. The state is modelled by the sequence of numbers the
  generator is going to return: a call takes the first three and leaves the rest.
\<close>

type_synonym rng = "nat \<Rightarrow> real"

definition np_random_rand3 :: "rng \<Rightarrow> color \<times> rng" where
  "np_random_rand3 g = (ColorSeq [g 0, g 1, g 2], \<lambda>n. g (n + 3))"

text \<open>\<^verbatim>\<open>not ell_color\<close>: true of \<^verbatim>\<open>None\<close>, the empty string and the empty tuple.\<close>

fun py_not_color :: "color option \<Rightarrow> bool" where
  "py_not_color None = True"
| "py_not_color (Some (ColorStr s)) = (s = [])"
| "py_not_color (Some (ColorSeq t)) = (t = [])"

section \<open>Loops\<close>

text \<open>
  \<^verbatim>\<open>for i, x in enumerate(xs): body\<close> and \<^verbatim>\<open>for x in xs: body\<close> over a state \<open>s\<close>; the first
  fault ends the loop.
\<close>

fun enumerate_loop :: "(nat \<Rightarrow> 'x \<Rightarrow> 's \<Rightarrow> py_error + 's) \<Rightarrow> nat \<Rightarrow> 'x list \<Rightarrow> 's \<Rightarrow> py_error + 's" where
  "enumerate_loop body i [] s = Inr s"
| "enumerate_loop body i (x # xs) s = bind_err (body i x s) (enumerate_loop body (Suc i) xs)"

fun for_loop :: "('x \<Rightarrow> 's \<Rightarrow> py_error + 's) \<Rightarrow> 'x list \<Rightarrow> 's \<Rightarrow> py_error + 's" where
  "for_loop body [] s = Inr s"
| "for_loop body (x # xs) s = bind_err (body x s) (for_loop body xs)"

section \<open>The receptive-field panel renderer\<close>

text \<open>\<^verbatim>\<open>np.min\<close> and \<^verbatim>\<open>np.max\<close> of a one-dimensional array; on an empty one they raise.\<close>

definition np_min :: "real list \<Rightarrow> py_error + real" where
  "np_min xs = (case xs of [] \<Rightarrow> Inl ValueError | x # ys \<Rightarrow> Inr (fold min ys x))"

definition np_max :: "real list \<Rightarrow> py_error + real" where
  "np_max xs = (case xs of [] \<Rightarrow> Inl ValueError | x # ys \<Rightarrow> Inr (fold max ys x))"

text \<open>The body of the first loop of \<^verbatim>\<open>plot_rfs\<close>: the ellipse is added and styled.\<close>

definition add_ell :: "real \<Rightarrow> color \<Rightarrow> color list \<Rightarrow> real \<Rightarrow> nat \<Rightarrow> real ellipse \<Rightarrow> axes \<Rightarrow> py_error + axes" where
  "add_ell alpha ell_color ls_facecolors lw idx_ell ell ax =
     bind_err (list_get ls_facecolors idx_ell) (\<lambda>fc.
     Inr (ax\<lparr>patches := patches ax @
       [\<lparr> p_ellipse = ell, p_alpha = alpha, p_edgecolor = ell_color,
          p_facecolor = fc, p_linewidth = lw \<rparr>]\<rparr>))"

text \<open>The body of the labelling loop (\<^verbatim>\<open>b_label\<close>): the cluster ID at the ellipse's centre.\<close>

definition label_ell :: "int list \<Rightarrow> nat \<Rightarrow> real ellipse \<Rightarrow> axes \<Rightarrow> py_error + axes" where
  "label_ell ls_cells idx ell ax =
     bind_err (list_get ls_cells idx) (\<lambda>n_ID.
     Inr (ax\<lparr>texts := texts ax @ [(fst (center ell), snd (center ell), str_int n_ID)]\<rparr>))"

text \<open>The auto-zoom step of \<^verbatim>\<open>plot_rfs\<close>, with its guard.\<close>

definition zoom :: "bool \<Rightarrow> real ellipse list \<Rightarrow> axes \<Rightarrow> py_error + axes" where
  "zoom b_zoom ells ax =
     (if b_zoom \<and> length ells > 0 then
        (let x0s = map (\<lambda>ell. fst (center ell)) ells;
             y0s = map (\<lambda>ell. snd (center ell)) ells
         in bind_err (np_min x0s) (\<lambda>x0_min.
            bind_err (np_max x0s) (\<lambda>x0_max.
            bind_err (np_min y0s) (\<lambda>y0_min.
            bind_err (np_max y0s) (\<lambda>y0_max.
            (let pad = 400
             in Inr (ax\<lparr>xlim := (x0_min - pad, x0_max + pad),
                        ylim := (y0_min - pad, y0_max + pad)\<rparr>)))))))
      else Inr ax)"

text \<open>
  The defaults of \<^verbatim>\<open>plot_rfs\<close>, in the order of the source: a fresh axes when none is
  given; the grid size of the container as scaling, together with the fixed limits
  0 to 5000, when \<^verbatim>\<open>SCALING\<close> is \<^verbatim>\<open>None\<close>; a random edge colour when \<^verbatim>\<open>not ell_color\<close>; the
  face colour repeated for every ellipse when it is a tuple or a string.
\<close>

definition default_axes :: "axes option \<Rightarrow> axes" where
  "default_axes ax = (case ax of None \<Rightarrow> new_axes | Some a \<Rightarrow> a)"

definition default_scaling :: "spikeoutputs \<Rightarrow> real option \<Rightarrow> axes \<Rightarrow> real \<times> axes" where
  "default_scaling spikeout SCALING ax =
     (case SCALING of
        None \<Rightarrow> (so_NOISE_GRID_SIZE spikeout, ax\<lparr>xlim := (0, 5000), ylim := (0, 5000)\<rparr>)
      | Some s \<Rightarrow> (s, ax))"

definition default_ell_color :: "rng \<Rightarrow> color option \<Rightarrow> color \<times> rng" where
  "default_ell_color g ell_color =
     (if py_not_color ell_color then np_random_rand3 g
      else (case ell_color of Some c \<Rightarrow> (c, g) | None \<Rightarrow> np_random_rand3 g))"

definition broadcast_facecolor :: "facecolors \<Rightarrow> nat \<Rightarrow> color list" where
  "broadcast_facecolor facecolor n =
     (case facecolor of Uniform c \<Rightarrow> replicate n c | PerCell cs \<Rightarrow> cs)"

text \<open>
  \<^verbatim>\<open>plot_rfs(spikeout, ls_cells, ell_color, ax, sd_mult, alpha, facecolor, SCALING,
  b_label, b_zoom, lw)\<close>, with the generator state as first argument and as third
  component of the result. An argument whose default is \<^verbatim>\<open>None\<close> is an option.
\<close>

definition plot_rfs ::
  "rng \<Rightarrow> spikeoutputs \<Rightarrow> int list \<Rightarrow> color option \<Rightarrow> axes option \<Rightarrow> real \<Rightarrow> real \<Rightarrow>
   facecolors \<Rightarrow> real option \<Rightarrow> bool \<Rightarrow> bool \<Rightarrow> real \<Rightarrow>
   py_error + (axes \<times> real ellipse list \<times> rng)" where
  "plot_rfs g spikeout ls_cells ell_color ax sd_mult alpha facecolor SCALING b_label b_zoom lw =
     (let ax = default_axes ax;
          (SCALING, ax) = default_scaling spikeout SCALING ax;
          (ell_color, g) = default_ell_color g ell_color
      in bind_err (get_rf_ells ls_cells (so_d_sta spikeout) SCALING sd_mult) (\<lambda>ells.
         (let ls_facecolors = broadcast_facecolor facecolor (length ells)
          in bind_err (enumerate_loop (add_ell alpha ell_color ls_facecolors lw) 0 ells ax) (\<lambda>ax.
             bind_err (if b_label then enumerate_loop (label_ell ls_cells) 0 ells ax else Inr ax) (\<lambda>ax.
             bind_err (zoom b_zoom ells ax) (\<lambda>ax.
             Inr (ax, ells, g)))))))"

section \<open>NumPy reductions\<close>

text \<open>
  \<^verbatim>\<open>np.array\<close> of a list of rows: the empty list gives the empty one-dimensional
  array, rows of one length \<open>k\<close> give a matrix with \<open>k\<close> columns, and rows of unequal
  length are refused. Numbers are real numbers here, the values that the floating-point
  results approximate.
\<close>

datatype ndarray = Empty1 | Array2 nat "real list list"

definition rectangular :: "real list list \<Rightarrow> bool" where
  "rectangular rows = list_all (\<lambda>r. length r = length (hd rows)) rows"

definition np_array :: "real list list \<Rightarrow> py_error + ndarray" where
  "np_array rows =
     (if rows = [] then Inr Empty1
      else if rectangular rows then Inr (Array2 (length (hd rows)) rows)
      else Inl ValueError)"


definition column :: "real list list \<Rightarrow> nat \<Rightarrow> real list" where
  "column rows j = map (\<lambda>r. r ! j) rows"

definition list_mean :: "real list \<Rightarrow> real" where
  "list_mean xs = sum_list xs / real (length xs)"

text \<open>NumPy's standard deviation: the root of the mean of \<open>|x - mean|\<^sup>2\<close> (no Bessel correction).\<close>

definition list_std :: "real list \<Rightarrow> real" where
  "list_std xs = sqrt (list_mean (map (\<lambda>x. \<bar>x - list_mean xs\<bar> ^ 2) xs))"

fun np_mean_axis0 :: "ndarray \<Rightarrow> ydata" where
  "np_mean_axis0 Empty1 = NaNScalar"
| "np_mean_axis0 (Array2 k rows) =
     (if rows = [] then NaNVec k else Vec (map (\<lambda>j. list_mean (column rows j)) [0..<k]))"

fun np_std_axis0 :: "ndarray \<Rightarrow> ydata" where
  "np_std_axis0 Empty1 = NaNScalar"
| "np_std_axis0 (Array2 k rows) =
     (if rows = [] then NaNVec k else Vec (map (\<lambda>j. list_std (column rows j)) [0..<k]))"

text \<open>\<^verbatim>\<open>mean - std\<close> and \<^verbatim>\<open>mean + std\<close>, element by element; NaN stays NaN.\<close>

fun yd_minus :: "ydata \<Rightarrow> ydata \<Rightarrow> ydata" where
  "yd_minus (Vec a) (Vec b) = Vec (map2 (-) a b)"
| "yd_minus (Vec a) (NaNVec k) = NaNVec k"
| "yd_minus (Vec a) NaNScalar = NaNVec (length a)"
| "yd_minus (NaNVec k) _ = NaNVec k"
| "yd_minus NaNScalar (Vec b) = NaNVec (length b)"
| "yd_minus NaNScalar (NaNVec k) = NaNVec k"
| "yd_minus NaNScalar NaNScalar = NaNScalar"

fun yd_plus :: "ydata \<Rightarrow> ydata \<Rightarrow> ydata" where
  "yd_plus (Vec a) (Vec b) = Vec (map2 (+) a b)"
| "yd_plus (Vec a) (NaNVec k) = NaNVec k"
| "yd_plus (Vec a) NaNScalar = NaNVec (length a)"
| "yd_plus (NaNVec k) _ = NaNVec k"
| "yd_plus NaNScalar (Vec b) = NaNVec (length b)"
| "yd_plus NaNScalar (NaNVec k) = NaNVec k"
| "yd_plus NaNScalar NaNScalar = NaNScalar"

text \<open>\<^verbatim>\<open>len(mean)\<close>: a scalar has no length.\<close>

fun py_len :: "ydata \<Rightarrow> py_error + nat" where
  "py_len (Vec a) = Inr (length a)"
| "py_len (NaNVec k) = Inr k"
| "py_len NaNScalar = Inl TypeError"

section \<open>The multi-type receptive-field grid\<close>

text \<open>\<^verbatim>\<open>[c for c in ls_cells if c in data.d_sta.keys()]\<close>\<close>

definition keep_fitted :: "spikeoutputs \<Rightarrow> int list \<Rightarrow> int list" where
  "keep_fitted data ls_cells = filter (\<lambda>c. so_d_sta data c \<noteq> None) ls_cells"

definition ticks_off :: "axes \<Rightarrow> axes" where
  "ticks_off ax = ax\<lparr>xlabel := [], ylabel := [], xticks := Some [], yticks := Some []\<rparr>"

text \<open>
  The body of the loop of \<^verbatim>\<open>plot_type_rfs\<close> over \<^verbatim>\<open>enumerate(ls_RGC_keys)\<close>. The state of
  the loop is the array of axes and the generator. \<^verbatim>\<open>plot_rfs\<close> is called with its
  defaults for \<^verbatim>\<open>SCALING\<close>, \<^verbatim>\<open>b_label\<close> and \<^verbatim>\<open>lw\<close>.
\<close>

fun type_rfs_body ::
  "spikeoutputs \<Rightarrow> (string \<times> int list) list \<Rightarrow> color list \<Rightarrow> facecolors list \<Rightarrow> real \<Rightarrow>
   string list \<Rightarrow> bool \<Rightarrow> real \<Rightarrow> nat \<Rightarrow> string \<Rightarrow> axes list \<times> rng \<Rightarrow>
   py_error + (axes list \<times> rng)" where
  "type_rfs_body data d_IDs ls_colors ls_facecolors alpha ls_RGC_labels b_zoom sd_mult
       i str_key (axs, g) =
     bind_err (dict_get (map_of d_IDs) str_key) (\<lambda>ls_cells.
     bind_err (list_get ls_RGC_labels i) (\<lambda>ls_label.
     (let ls_cells = keep_fitted data ls_cells
      in bind_err (list_get axs i) (\<lambda>ax.
         bind_err (list_get ls_colors i) (\<lambda>ell_color.
         bind_err (list_get ls_facecolors i) (\<lambda>facecolor.
         bind_err (plot_rfs g data ls_cells (Some ell_color) (Some ax) sd_mult alpha facecolor
                     None False b_zoom 1) (\<lambda>(ax, ells, g).
         Inr (axs[i := ax\<lparr>title := ls_label @ '' (n='' @ str_nat (length ls_cells) @ '') RFs''\<rparr>],
              g))))))))"

text \<open>
  \<^verbatim>\<open>plot_type_rfs(data, ls_RGC_keys, ls_colors, axs, ls_facecolors, alpha, b_ticks_off,
  ls_RGC_labels, d_IDs, b_zoom, sd_mult)\<close>. The default of \<^verbatim>\<open>ls_colors\<close>, seaborn's palette
  at import time, is an argument here. \<^verbatim>\<open>axs\<close> is the sequence of panels; a single axes
  (which the source wraps into an array when there is one key) is the one-element
  sequence.
\<close>

definition plot_type_rfs ::
  "rng \<Rightarrow> spikeoutputs \<Rightarrow> string list option \<Rightarrow> color list \<Rightarrow> axes list option \<Rightarrow>
   facecolors list option \<Rightarrow> real \<Rightarrow> bool \<Rightarrow> string list option \<Rightarrow>
   (string \<times> int list) list option \<Rightarrow> bool \<Rightarrow> real \<Rightarrow> py_error + (axes list \<times> rng)" where
  "plot_type_rfs g data ls_RGC_keys ls_colors axs ls_facecolors alpha b_ticks_off
       ls_RGC_labels d_IDs b_zoom sd_mult =
     (let d_IDs = if_none d_IDs (so_d_main_IDs data);
          ls_RGC_keys = if_none ls_RGC_keys (map fst d_IDs);
          ncols = length ls_RGC_keys;
          axs = if_none axs (replicate ncols new_axes);
          ls_facecolors = if_none ls_facecolors (map Uniform ls_colors);
          ls_RGC_labels = if_none ls_RGC_labels ls_RGC_keys
      in bind_err (enumerate_loop
                     (type_rfs_body data d_IDs ls_colors ls_facecolors alpha ls_RGC_labels
                        b_zoom sd_mult) 0 ls_RGC_keys (axs, g)) (\<lambda>(axs, g).
         Inr (if b_ticks_off then map ticks_off axs else axs, g)))"

section \<open>The multi-type time-course grid\<close>

text \<open>\<^verbatim>\<open>[data.d_sta[n_ID]['RedTimeCourse'] for n_ID in ls_cells]\<close>, for either channel.\<close>

fun waveforms ::
  "(real sta_fit \<Rightarrow> real list) \<Rightarrow> (int \<rightharpoonup> real sta_fit) \<Rightarrow> int list \<Rightarrow> py_error + real list list" where
  "waveforms channel d_sta [] = Inr []"
| "waveforms channel d_sta (n_ID # ls_cells) =
     bind_err (dict_get d_sta n_ID) (\<lambda>fit.
     bind_err (waveforms channel d_sta ls_cells) (\<lambda>rows.
     Inr (channel fit # rows)))"

text \<open>
  What \<^verbatim>\<open>axs[i].plot(y, c=c, linewidth=lw)\<close> (with \<^verbatim>\<open>alpha\<close> when it is given) and
  \<^verbatim>\<open>axs[i].fill_between(np.arange(n), mean-std, mean+std, alpha=alpha, color=c)\<close> draw.
\<close>

definition tc_line :: "ydata \<Rightarrow> color \<Rightarrow> real \<Rightarrow> real option \<Rightarrow> line2d" where
  "tc_line y c lw a =
     \<lparr> l_xdata = None, l_ydata = y, l_color = c, l_marker = None, l_label = None,
       l_linewidth = Some lw, l_alpha = a \<rparr>"

definition tc_band :: "nat \<Rightarrow> ydata \<Rightarrow> ydata \<Rightarrow> real \<Rightarrow> color \<Rightarrow> band" where
  "tc_band n mean std alpha c =
     \<lparr> b_xdata = map real [0..<n], b_lower = yd_minus mean std, b_upper = yd_plus mean std,
       b_color = c, b_alpha = alpha \<rparr>"

text \<open>
  One channel of the mean-plotting mode: the array of the waveforms, its mean and
  standard deviation along axis 0, the line of the mean in \<^verbatim>\<open>ls_colors[ch]\<close> and the band
  from \<^verbatim>\<open>mean - std\<close> to \<^verbatim>\<open>mean + std\<close> over \<^verbatim>\<open>np.arange(len(mean))\<close>.
\<close>

definition plot_mean_band ::
  "real list list \<Rightarrow> color list \<Rightarrow> nat \<Rightarrow> real \<Rightarrow> real \<Rightarrow> axes \<Rightarrow> py_error + axes" where
  "plot_mean_band rows ls_colors ch alpha lw ax =
     bind_err (np_array rows) (\<lambda>tcs.
     (let mean = np_mean_axis0 tcs;
          std = np_std_axis0 tcs
      in bind_err (list_get ls_colors ch) (\<lambda>c.
         (let ax = ax\<lparr>lines := lines ax @ [tc_line mean c lw None]\<rparr>
          in bind_err (py_len mean) (\<lambda>n.
             bind_err (list_get ls_colors ch) (\<lambda>c.
             Inr (ax\<lparr>bands := bands ax @ [tc_band n mean std alpha c]\<rparr>)))))))"

text \<open>The body of the loop over the cells when the mean is not plotted: both waveforms.\<close>

definition plot_cell_tcs ::
  "(int \<rightharpoonup> real sta_fit) \<Rightarrow> color list \<Rightarrow> real \<Rightarrow> real \<Rightarrow> int \<Rightarrow> axes \<Rightarrow> py_error + axes" where
  "plot_cell_tcs d_sta ls_colors alpha lw n_ID ax =
     bind_err (dict_get d_sta n_ID) (\<lambda>fit.
     bind_err (list_get ls_colors 0) (\<lambda>c.
     (let ax = ax\<lparr>lines := lines ax @ [tc_line (Vec (RedTimeCourse fit)) c lw (Some alpha)]\<rparr>
      in bind_err (dict_get d_sta n_ID) (\<lambda>fit.
         bind_err (list_get ls_colors 1) (\<lambda>c.
         Inr (ax\<lparr>lines := lines ax @ [tc_line (Vec (BlueTimeCourse fit)) c lw (Some alpha)]\<rparr>))))))"

text \<open>
  One panel of \<^verbatim>\<open>plot_type_tcs\<close>, from the zero line to the title, for the cell list and
  the label of its key.
\<close>

definition tcs_panel ::
  "spikeoutputs \<Rightarrow> color list \<Rightarrow> real \<Rightarrow> bool \<Rightarrow> real \<Rightarrow> int list \<Rightarrow> string \<Rightarrow> axes \<Rightarrow>
   py_error + axes" where
  "tcs_panel data ls_colors alpha b_plot_mean lw ls_cells str_label ax =
     (let ax = ax\<lparr>hlines := hlines ax @ [0]\<rparr>;
          ls_cells = keep_fitted data ls_cells
      in bind_err
           (if b_plot_mean then
              bind_err (waveforms RedTimeCourse (so_d_sta data) ls_cells) (\<lambda>rows.
              bind_err (plot_mean_band rows ls_colors 0 alpha lw ax) (\<lambda>ax.
              bind_err (waveforms BlueTimeCourse (so_d_sta data) ls_cells) (\<lambda>rows.
              plot_mean_band rows ls_colors 1 alpha lw ax)))
            else for_loop (plot_cell_tcs (so_d_sta data) ls_colors alpha lw) ls_cells ax) (\<lambda>ax.
         Inr (ax\<lparr>title := str_label @ '' (n='' @ str_nat (length ls_cells) @ '') timecourses''\<rparr>)))"

text \<open>
  The body of the loop of \<^verbatim>\<open>plot_type_tcs\<close>. The cell list is read from
  \<^verbatim>\<open>data.types.d_main_IDs\<close>, whatever \<^verbatim>\<open>d_IDs\<close> is.
\<close>

definition type_tcs_body ::
  "spikeoutputs \<Rightarrow> color list \<Rightarrow> real \<Rightarrow> bool \<Rightarrow> string list \<Rightarrow> real \<Rightarrow>
   nat \<Rightarrow> string \<Rightarrow> axes list \<Rightarrow> py_error + axes list" where
  "type_tcs_body data ls_colors alpha b_plot_mean ls_RGC_labels lw i str_key axs =
     bind_err (dict_get (map_of (so_d_main_IDs data)) str_key) (\<lambda>ls_cells.
     bind_err (list_get ls_RGC_labels i) (\<lambda>str_label.
     bind_err (list_get axs i) (\<lambda>ax.
     bind_err (tcs_panel data ls_colors alpha b_plot_mean lw ls_cells str_label ax) (\<lambda>ax.
     Inr (axs[i := ax])))))"

text \<open>
  \<^verbatim>\<open>plot_type_tcs(data, ls_RGC_keys, axs, ls_colors, alpha, b_plot_mean, ls_RGC_labels,
  lw, d_IDs)\<close>.
\<close>

definition plot_type_tcs ::
  "spikeoutputs \<Rightarrow> string list option \<Rightarrow> axes list option \<Rightarrow> color list option \<Rightarrow> real \<Rightarrow>
   bool \<Rightarrow> string list option \<Rightarrow> real \<Rightarrow> (string \<times> int list) list option \<Rightarrow>
   py_error + axes list" where
  "plot_type_tcs data ls_RGC_keys axs ls_colors alpha b_plot_mean ls_RGC_labels lw d_IDs =
     (let d_IDs = if_none d_IDs (so_d_main_IDs data);
          ls_RGC_keys = if_none ls_RGC_keys (map fst d_IDs);
          axs = if_none axs (replicate (length ls_RGC_keys) new_axes);
          ls_colors = if_none ls_colors [ColorStr ''C1'', ColorStr ''C0''];
          ls_RGC_labels = if_none ls_RGC_labels ls_RGC_keys
      in enumerate_loop (type_tcs_body data ls_colors alpha b_plot_mean ls_RGC_labels lw)
           0 ls_RGC_keys axs)"

section \<open>The contrast-response renderer\<close>





section \<open>A small data container\<close>

text \<open>
  Concrete inputs on which the theorems below are evaluated: two clusters with fits
  (7 and 3), one cluster without (9), four cell types (SBC with no fitted cell),
  a generator state, and the amplitude matrix and waveforms of the spec's examples.
  \<open>ex_ragged\<close> is the same container with a shorter red waveform for cluster 3.
\<close>

definition ex_d_sta :: "int \<rightharpoonup> real sta_fit" where
  "ex_d_sta =
     [7 \<mapsto> \<lparr> x0 = 1, y0 = 2, SigmaX = 3, SigmaY = 4, Theta = 5,
              RedTimeCourse = [1, 2, 3], BlueTimeCourse = [3, 2, 1] \<rparr>,
      3 \<mapsto> \<lparr> x0 = 6, y0 = 1, SigmaX = 1, SigmaY = 2, Theta = 0,
              RedTimeCourse = [3, 2, 1], BlueTimeCourse = [1, 2, 3] \<rparr>]"

definition ex_data :: spikeoutputs where
  "ex_data =
     \<lparr> so_NOISE_GRID_SIZE = 10,
       so_d_sta = ex_d_sta,
       so_d_main_IDs = [(''OffP'', [7, 9, 3]), (''OnP'', [3]), (''SBC'', [9]), (''OnM'', [7, 3])],
       so_ls_RGC_labels = [''OffP''],
       so_d_crf = \<lparr> contrast = [1, 2, 4], cluster_id = [7, 3],
                    amp_4Hz = [[1, 2, 3], [3, 2, 1]] \<rparr> \<rparr>"


definition ex_rng :: rng where
  "ex_rng n = 1 / (real n + 2)"



section \<open>Faults and loops\<close>

lemma bind_err_Inr:
  "bind_err r f = Inr v \<longleftrightarrow> (\<exists>u. r = Inr u \<and> f u = Inr v)"
  by (cases r) (simp_all add: bind_err_def)

lemma bind_err_Inr_simp [simp]: "bind_err (Inr u) f = f u"
  by (simp add: bind_err_def)

lemma bind_err_Inl_simp [simp]: "bind_err (Inl e) f = Inl e"
  by (simp add: bind_err_def)

lemma list_get_Inr: "list_get xs i = Inr v \<longleftrightarrow> i < length xs \<and> v = xs ! i"
  by (auto simp: list_get_def)

lemma dict_get_Inr: "dict_get d k = Inr v \<longleftrightarrow> d k = Some v"
  by (simp add: dict_get_def split: option.splits)

lemma if_none_simps [simp]: "if_none (Some x) d = x" "if_none None d = d"
  by (simp_all add: if_none_def)


lemma map_fst_zip_le: "length xs \<le> length ys \<Longrightarrow> map fst (zip xs ys) = xs"
  by (induction xs arbitrary: ys) (auto simp: Suc_le_length_iff)

lemma enumerate_loop_frame:
  assumes step: "\<And>i x s s'. body i x s = Inr s' \<Longrightarrow>
      i < length (sel s) \<and> length (sel s') = length (sel s) \<and>
      (\<forall>m. m \<noteq> i \<longrightarrow> sel s' ! m = sel s ! m) \<and> Q i x (sel s ! i) (sel s' ! i)"
    and run: "enumerate_loop body i xs s = Inr s'"
  shows "length (sel s') = length (sel s) \<and>
     (xs \<noteq> [] \<longrightarrow> i + length xs \<le> length (sel s)) \<and>
     (\<forall>j<length xs. Q (i + j) (xs ! j) (sel s ! (i + j)) (sel s' ! (i + j))) \<and>
     (\<forall>m. m < i \<or> i + length xs \<le> m \<longrightarrow> sel s' ! m = sel s ! m)"
  using run
proof (induction xs arbitrary: i s)
  case Nil
  then show ?case by simp
next
  case (Cons x xs)
  from Cons.prems obtain s1 where b: "body i x s = Inr s1"
    and r: "enumerate_loop body (Suc i) xs s1 = Inr s'"
    by (auto simp: bind_err_Inr)
  from step [OF b] have i: "i < length (sel s)" and l1: "length (sel s1) = length (sel s)"
    and f1: "\<And>m. m \<noteq> i \<Longrightarrow> sel s1 ! m = sel s ! m" and q: "Q i x (sel s ! i) (sel s1 ! i)"
    by auto
  from Cons.IH [OF r] have l2: "length (sel s') = length (sel s1)"
    and b2: "xs \<noteq> [] \<longrightarrow> Suc i + length xs \<le> length (sel s1)"
    and q2: "\<And>j. j < length xs \<Longrightarrow> Q (Suc i + j) (xs ! j) (sel s1 ! (Suc i + j)) (sel s' ! (Suc i + j))"
    and f2: "\<And>m. m < Suc i \<or> Suc i + length xs \<le> m \<Longrightarrow> sel s' ! m = sel s1 ! m"
    by auto
  have "Q (i + j) ((x # xs) ! j) (sel s ! (i + j)) (sel s' ! (i + j))" if "j < length (x # xs)" for j
  proof (cases j)
    case 0
    with q f2 [of i] show ?thesis by simp
  next
    case (Suc j')
    with that q2 [of j'] f1 [of "Suc i + j'"] show ?thesis by simp
  qed
  moreover have "sel s' ! m = sel s ! m" if "m < i \<or> i + length (x # xs) \<le> m" for m
    using that f2 [of m] f1 [of m] by auto
  moreover have "i + length (x # xs) \<le> length (sel s)"
    using i b2 l1 by (cases xs) auto
  ultimately show ?case using l1 l2 by simp
qed


section \<open>Properties of the geometry helper\<close>

lemma get_rf_ells_present:
  "set ls_cells \<subseteq> dom d_sta \<Longrightarrow>
   get_rf_ells ls_cells d_sta g m = Inr (map (\<lambda>n_ID. rf_ell (the (d_sta n_ID)) g m) ls_cells)"
  by (induction ls_cells) (auto simp: bind_err_def dict_get_def)

lemma get_rf_ells_absent:
  "\<not> set ls_cells \<subseteq> dom d_sta \<Longrightarrow> get_rf_ells ls_cells d_sta g m = Inl KeyError"
proof (induction ls_cells)
  case Nil
  then show ?case by simp
next
  case (Cons n_ID ls_cells)
  show ?case
  proof (cases "d_sta n_ID")
    case None
    then show ?thesis by (simp add: bind_err_def dict_get_def)
  next
    case (Some fit)
    with Cons.prems have "\<not> set ls_cells \<subseteq> dom d_sta" by auto
    with Cons.IH Some show ?thesis by (simp add: bind_err_def dict_get_def)
  qed
qed

lemma get_rf_ells_Inr_D: "get_rf_ells ls d g m = Inr ells \<Longrightarrow> set ls \<subseteq> dom d"
  using get_rf_ells_absent [of ls d g m] by auto

text \<open>
  Claim C1. For every list of cluster IDs \<open>L\<close> and every fit mapping \<open>F\<close> that has all
  of them as keys, \<^verbatim>\<open>get_rf_ells\<close> returns a list as long as \<open>L\<close>, in the order of \<open>L\<close>,
  whose \<open>i\<close>-th ellipse has the centre \<open>(x0 * g, y0 * g)\<close>, the width \<open>SigmaX * 2 * g * m\<close>,
  the height \<open>SigmaY * 2 * g * m\<close> and the angle \<open>Theta\<close> of the fit of \<open>L ! i\<close>. The
  products are those of the source, for any number type: no law of arithmetic is used.
\<close>

theorem get_rf_ells_geometry:
  fixes F :: "int \<rightharpoonup> ('a::{times,numeral}) sta_fit"
  assumes "set L \<subseteq> dom F"
  shows "\<exists>ells. get_rf_ells L F g m = Inr ells \<and> length ells = length L \<and>
     (\<forall>i<length L.
        center (ells ! i) = (x0 (the (F (L ! i))) * g, y0 (the (F (L ! i))) * g) \<and>
        width (ells ! i) = SigmaX (the (F (L ! i))) * 2 * g * m \<and>
        height (ells ! i) = SigmaY (the (F (L ! i))) * 2 * g * m \<and>
        angle (ells ! i) = Theta (the (F (L ! i))))"
  using get_rf_ells_present [OF assms, of g m] by (simp add: rf_ell_def)

text \<open>Two cells with fits, grid size 10, multiplier 2.\<close>

theorem get_rf_ells_geometry_witness:
  "set [7, 3] \<subseteq> dom ex_d_sta \<and>
   (\<exists>ells. get_rf_ells [7, 3] ex_d_sta 10 2 = Inr ells \<and> length ells = 2 \<and>
      center (ells ! 0) = (10, 20) \<and> width (ells ! 0) = 120 \<and>
      height (ells ! 0) = 160 \<and> angle (ells ! 0) = 5 \<and>
      center (ells ! 1) = (60, 10) \<and> width (ells ! 1) = 40 \<and>
      height (ells ! 1) = 80 \<and> angle (ells ! 1) = 0)"
proof -
  have h: "set [7, 3] \<subseteq> dom ex_d_sta"
    by (simp add: ex_d_sta_def)
  from get_rf_ells_geometry [OF h, of 10 2] obtain ells where
    r: "get_rf_ells [7, 3] ex_d_sta 10 2 = Inr ells" and l: "length ells = 2"
    and a: "\<forall>i<2. center (ells ! i) = (x0 (the (ex_d_sta ([7, 3] ! i))) * 10, y0 (the (ex_d_sta ([7, 3] ! i))) * 10) \<and>
        width (ells ! i) = SigmaX (the (ex_d_sta ([7, 3] ! i))) * 2 * 10 * 2 \<and>
        height (ells ! i) = SigmaY (the (ex_d_sta ([7, 3] ! i))) * 2 * 10 * 2 \<and>
        angle (ells ! i) = Theta (the (ex_d_sta ([7, 3] ! i)))"
    by auto
  from a have "center (ells ! 0) = (10, 20) \<and> width (ells ! 0) = 120 \<and>
      height (ells ! 0) = 160 \<and> angle (ells ! 0) = 5"
    by (simp add: ex_d_sta_def)
  moreover from a have "center (ells ! 1) = (60, 10) \<and> width (ells ! 1) = 40 \<and>
      height (ells ! 1) = 80 \<and> angle (ells ! 1) = 0"
    by (simp add: ex_d_sta_def)
  ultimately show ?thesis using h r l by blast
qed

text \<open>
  Claim C7. \<^verbatim>\<open>get_rf_ells\<close> fails with a key-lookup error exactly when some requested
  cluster ID has no entry in the fit mapping; it returns exactly when every requested ID
  has one; and it fails in no other way.
\<close>

theorem get_rf_ells_fault_iff:
  "(get_rf_ells L F g m = Inl KeyError \<longleftrightarrow> (\<exists>n_ID\<in>set L. F n_ID = None)) \<and>
   ((\<exists>ells. get_rf_ells L F g m = Inr ells) \<longleftrightarrow> (\<forall>n_ID\<in>set L. F n_ID \<noteq> None)) \<and>
   (\<forall>e. get_rf_ells L F g m = Inl e \<longrightarrow> e = KeyError)"
proof (cases "set L \<subseteq> dom F")
  case True
  from get_rf_ells_present [OF True, of g m] True show ?thesis by auto
next
  case False
  from get_rf_ells_absent [OF False, of g m] False show ?thesis by auto
qed

text \<open>Cluster 9 has no fit: the call with it fails, the call without it returns.\<close>

theorem get_rf_ells_fault_iff_witness:
  "get_rf_ells [7, 9, 3] ex_d_sta (10 :: real) 2 = Inl KeyError \<and>
   (\<exists>ells. get_rf_ells [7, 3] ex_d_sta (10 :: real) 2 = Inr ells)"
proof -
  have "\<exists>n_ID\<in>set [7, 9, 3]. ex_d_sta n_ID = None"
    by (simp add: ex_d_sta_def)
  moreover have "\<forall>n_ID\<in>set [7, 3]. ex_d_sta n_ID \<noteq> None"
    by (simp add: ex_d_sta_def)
  ultimately show ?thesis
    using get_rf_ells_fault_iff [of "[7, 9, 3]" ex_d_sta 10 2]
      get_rf_ells_fault_iff [of "[7, 3]" ex_d_sta 10 2]
    by blast
qed

section \<open>Properties of the receptive-field panel renderer\<close>

lemma np_min_Min: "xs \<noteq> [] \<Longrightarrow> np_min xs = Inr (Min (set xs))"
  by (cases xs) (simp_all add: np_min_def Min.set_eq_fold [symmetric] del: set_simps)

lemma np_max_Max: "xs \<noteq> [] \<Longrightarrow> np_max xs = Inr (Max (set xs))"
  by (cases xs) (simp_all add: np_max_def Max.set_eq_fold [symmetric] del: set_simps)

lemma add_ells_ok:
  "i + length ells \<le> length fcs \<Longrightarrow>
   enumerate_loop (add_ell a e fcs lw) i ells ax =
     Inr (ax\<lparr>patches := patches ax @
       map (\<lambda>(ell, fc). \<lparr> p_ellipse = ell, p_alpha = a, p_edgecolor = e,
                          p_facecolor = fc, p_linewidth = lw \<rparr>) (zip ells (drop i fcs))\<rparr>)"
proof (induction ells arbitrary: i ax)
  case Nil
  then show ?case by simp
next
  case (Cons ell ells)
  then have i: "i < length fcs" and rest: "Suc i + length ells \<le> length fcs" by simp_all
  from i have d: "drop i fcs = fcs ! i # drop (Suc i) fcs"
    by (simp add: Cons_nth_drop_Suc)
  show ?case
    using Cons.IH [OF rest] i
    by (simp add: bind_err_def add_ell_def list_get_def d)
qed

lemma add_ells_Inr_D:
  "enumerate_loop (add_ell a e fcs lw) i ells ax = Inr ax' \<Longrightarrow>
   ells = [] \<or> i + length ells \<le> length fcs"
proof (induction ells arbitrary: i ax)
  case Nil
  then show ?case by simp
next
  case (Cons ell ells)
  from Cons.prems obtain a1 where s: "add_ell a e fcs lw i ell ax = Inr a1"
    and r: "enumerate_loop (add_ell a e fcs lw) (Suc i) ells a1 = Inr ax'"
    by (auto simp: bind_err_Inr)
  from s have "i < length fcs"
    by (auto simp: add_ell_def bind_err_Inr list_get_Inr)
  with Cons.IH [OF r] show ?case by auto
qed

lemma label_ells_ok:
  "i + length ells \<le> length ls \<Longrightarrow>
   enumerate_loop (label_ell ls) i ells ax =
     Inr (ax\<lparr>texts := texts ax @
       map (\<lambda>(ell, n_ID). (fst (center ell), snd (center ell), str_int n_ID)) (zip ells (drop i ls))\<rparr>)"
proof (induction ells arbitrary: i ax)
  case Nil
  then show ?case by simp
next
  case (Cons ell ells)
  then have i: "i < length ls" and rest: "Suc i + length ells \<le> length ls" by simp_all
  from i have d: "drop i ls = ls ! i # drop (Suc i) ls"
    by (simp add: Cons_nth_drop_Suc)
  show ?case
    using Cons.IH [OF rest] i
    by (simp add: bind_err_def label_ell_def list_get_def d)
qed

lemma zoom_result:
  "zoom b_zoom ells ax =
     Inr (if b_zoom \<and> ells \<noteq> [] then
            ax\<lparr>xlim := (Min (set (map (\<lambda>ell. fst (center ell)) ells)) - 400,
                       Max (set (map (\<lambda>ell. fst (center ell)) ells)) + 400),
               ylim := (Min (set (map (\<lambda>ell. snd (center ell)) ells)) - 400,
                       Max (set (map (\<lambda>ell. snd (center ell)) ells)) + 400)\<rparr>
          else ax)"
  by (simp add: zoom_def np_min_Min np_max_Max bind_err_def Let_def)

lemma plot_rfs_ok:
  assumes present: "set ls_cells \<subseteq> dom (so_d_sta spikeout)"
    and colors: "length ls_cells \<le> length (broadcast_facecolor facecolor (length ls_cells))"
  shows "plot_rfs g spikeout ls_cells ell_color ax sd_mult alpha facecolor SCALING b_label b_zoom lw =
    (let ax0 = snd (default_scaling spikeout SCALING (default_axes ax));
         ells = map (\<lambda>n_ID. rf_ell (the (so_d_sta spikeout n_ID))
                  (fst (default_scaling spikeout SCALING (default_axes ax))) sd_mult) ls_cells;
         ax1 = ax0\<lparr>patches := patches ax0 @
                 map (\<lambda>(ell, fc). \<lparr> p_ellipse = ell, p_alpha = alpha,
                        p_edgecolor = fst (default_ell_color g ell_color),
                        p_facecolor = fc, p_linewidth = lw \<rparr>)
                   (zip ells (broadcast_facecolor facecolor (length ls_cells)))\<rparr>;
         ax2 = (if b_label then
                  ax1\<lparr>texts := texts ax1 @
                    map (\<lambda>(ell, n_ID). (fst (center ell), snd (center ell), str_int n_ID))
                      (zip ells ls_cells)\<rparr>
                else ax1);
         ax3 = (if b_zoom \<and> ells \<noteq> [] then
                  ax2\<lparr>xlim := (Min (set (map (\<lambda>ell. fst (center ell)) ells)) - 400,
                              Max (set (map (\<lambda>ell. fst (center ell)) ells)) + 400),
                      ylim := (Min (set (map (\<lambda>ell. snd (center ell)) ells)) - 400,
                              Max (set (map (\<lambda>ell. snd (center ell)) ells)) + 400)\<rparr>
                else ax2)
     in Inr (ax3, ells, snd (default_ell_color g ell_color)))"
proof -
  obtain sc a0 where ds: "default_scaling spikeout SCALING (default_axes ax) = (sc, a0)"
    by (cases "default_scaling spikeout SCALING (default_axes ax)")
  obtain ec g' where de: "default_ell_color g ell_color = (ec, g')"
    by (cases "default_ell_color g ell_color")
  have ge: "get_rf_ells ls_cells (so_d_sta spikeout) sc sd_mult =
      Inr (map (\<lambda>n_ID. rf_ell (the (so_d_sta spikeout n_ID)) sc sd_mult) ls_cells)"
    by (rule get_rf_ells_present [OF present])
  show ?thesis
    using colors
    by (simp add: plot_rfs_def ds de ge bind_err_def add_ells_ok label_ells_ok zoom_result Let_def)
qed

lemma plot_rfs_Inr_D:
  assumes "plot_rfs g spikeout ls_cells ell_color ax sd_mult alpha facecolor SCALING b_label b_zoom lw
     = Inr r"
  shows "set ls_cells \<subseteq> dom (so_d_sta spikeout) \<and>
     length ls_cells \<le> length (broadcast_facecolor facecolor (length ls_cells))"
proof -
  obtain sc a0 where ds: "default_scaling spikeout SCALING (default_axes ax) = (sc, a0)"
    by (cases "default_scaling spikeout SCALING (default_axes ax)")
  obtain ec g' where de: "default_ell_color g ell_color = (ec, g')"
    by (cases "default_ell_color g ell_color")
  from assms obtain ells a1 where
    ge: "get_rf_ells ls_cells (so_d_sta spikeout) sc sd_mult = Inr ells"
    and lo: "enumerate_loop (add_ell alpha ec (broadcast_facecolor facecolor (length ells)) lw) 0 ells a0
       = Inr a1"
    by (auto simp: plot_rfs_def ds de bind_err_Inr Let_def)
  from get_rf_ells_Inr_D [OF ge] have p: "set ls_cells \<subseteq> dom (so_d_sta spikeout)" .
  from ge get_rf_ells_present [OF p, of sc sd_mult] have "length ells = length ls_cells"
    by auto
  with add_ells_Inr_D [OF lo] p show ?thesis by auto
qed

lemma plot_rfs_patches:
  assumes "plot_rfs g spikeout ls_cells ell_color ax sd_mult alpha facecolor SCALING b_label b_zoom lw
     = Inr (ax', ells, g')"
  shows "get_rf_ells ls_cells (so_d_sta spikeout)
       (fst (default_scaling spikeout SCALING (default_axes ax))) sd_mult = Inr ells \<and>
     map p_ellipse (patches ax') = map p_ellipse (patches (default_axes ax)) @ ells \<and>
     title ax' = title (default_axes ax)"
proof -
  from plot_rfs_Inr_D [OF assms] have p: "set ls_cells \<subseteq> dom (so_d_sta spikeout)"
    and c: "length ls_cells \<le> length (broadcast_facecolor facecolor (length ls_cells))"
    by simp_all
  have f: "p_ellipse \<circ> (\<lambda>(ell, fc). \<lparr> p_ellipse = ell, p_alpha = a, p_edgecolor = e,
                        p_facecolor = fc, p_linewidth = w \<rparr>) = fst" for a e w
    by (auto simp: fun_eq_iff)
  from assms have e: "ells = map (\<lambda>n_ID. rf_ell (the (so_d_sta spikeout n_ID))
                  (fst (default_scaling spikeout SCALING (default_axes ax))) sd_mult) ls_cells"
    unfolding plot_rfs_ok [OF p c] Let_def by simp
  then have l: "length ells \<le> length (broadcast_facecolor facecolor (length ls_cells))"
    using c by simp
  from assms have pt: "patches ax' =
      patches (snd (default_scaling spikeout SCALING (default_axes ax))) @
      map (\<lambda>(ell, fc). \<lparr> p_ellipse = ell, p_alpha = alpha,
                        p_edgecolor = fst (default_ell_color g ell_color),
                        p_facecolor = fc, p_linewidth = lw \<rparr>)
        (zip ells (broadcast_facecolor facecolor (length ls_cells)))"
    unfolding plot_rfs_ok [OF p c] Let_def e [symmetric] by auto
  from assms have ti: "title ax' = title (snd (default_scaling spikeout SCALING (default_axes ax)))"
    unfolding plot_rfs_ok [OF p c] Let_def e [symmetric] by auto
  have d: "patches (snd (default_scaling spikeout SCALING a)) = patches a"
    "title (snd (default_scaling spikeout SCALING a)) = title a" for a
    by (cases SCALING; simp add: default_scaling_def)+
  have "map p_ellipse (patches ax') = map p_ellipse (patches (default_axes ax)) @ ells"
    by (simp add: pt d f map_fst_zip_le [OF l])
  moreover have "get_rf_ells ls_cells (so_d_sta spikeout)
       (fst (default_scaling spikeout SCALING (default_axes ax))) sd_mult = Inr ells"
    by (simp add: e get_rf_ells_present [OF p])
  ultimately show ?thesis by (simp add: ti d)
qed


text \<open>
  Claim C3. Whenever \<^verbatim>\<open>plot_rfs\<close> returns, its ellipses are those of \<^verbatim>\<open>get_rf_ells\<close>; with
  \<^verbatim>\<open>b_zoom\<close> and at least one ellipse the limits of the x axis are the least centre
  x-coordinate minus 400 and the greatest plus 400, and likewise for y; with no ellipse
  (or without \<^verbatim>\<open>b_zoom\<close>) the zoom is skipped and the limits are the ones the axes had
  after the defaults. It does return when every cell has a fit and a per-cell list of
  face colours has a colour for each cell.
\<close>

theorem plot_rfs_auto_zoom:
  "(\<forall>ax' ells g'.
      plot_rfs g spikeout ls_cells ell_color ax sd_mult alpha facecolor SCALING b_label b_zoom lw
        = Inr (ax', ells, g') \<longrightarrow>
      get_rf_ells ls_cells (so_d_sta spikeout)
        (fst (default_scaling spikeout SCALING (default_axes ax))) sd_mult = Inr ells \<and>
      (b_zoom \<and> ells \<noteq> [] \<longrightarrow>
         xlim ax' = (Min (set (map (\<lambda>ell. fst (center ell)) ells)) - 400,
                     Max (set (map (\<lambda>ell. fst (center ell)) ells)) + 400) \<and>
         ylim ax' = (Min (set (map (\<lambda>ell. snd (center ell)) ells)) - 400,
                     Max (set (map (\<lambda>ell. snd (center ell)) ells)) + 400)) \<and>
      (\<not> b_zoom \<or> ells = [] \<longrightarrow>
         xlim ax' = xlim (snd (default_scaling spikeout SCALING (default_axes ax))) \<and>
         ylim ax' = ylim (snd (default_scaling spikeout SCALING (default_axes ax))))) \<and>
   (set ls_cells \<subseteq> dom (so_d_sta spikeout) \<and>
    (\<forall>cs. facecolor = PerCell cs \<longrightarrow> length ls_cells \<le> length cs) \<longrightarrow>
      (\<exists>ax' ells g'.
         plot_rfs g spikeout ls_cells ell_color ax sd_mult alpha facecolor SCALING b_label b_zoom lw
           = Inr (ax', ells, g')))"
proof (intro conjI allI impI)
  fix ax' ells g'
  assume r: "plot_rfs g spikeout ls_cells ell_color ax sd_mult alpha facecolor SCALING b_label b_zoom lw
        = Inr (ax', ells, g')"
  from plot_rfs_Inr_D [OF r] have p: "set ls_cells \<subseteq> dom (so_d_sta spikeout)"
    and c: "length ls_cells \<le> length (broadcast_facecolor facecolor (length ls_cells))"
    by simp_all
  from r have e: "ells = map (\<lambda>n_ID. rf_ell (the (so_d_sta spikeout n_ID))
                  (fst (default_scaling spikeout SCALING (default_axes ax))) sd_mult) ls_cells"
    unfolding plot_rfs_ok [OF p c] Let_def by simp
  from r have x: "xlim ax' =
      (if b_zoom \<and> ells \<noteq> [] then
         (Min (set (map (\<lambda>ell. fst (center ell)) ells)) - 400,
          Max (set (map (\<lambda>ell. fst (center ell)) ells)) + 400)
       else xlim (snd (default_scaling spikeout SCALING (default_axes ax))))"
    unfolding plot_rfs_ok [OF p c] Let_def e [symmetric] by (auto simp del: set_map)
  from r have y: "ylim ax' =
      (if b_zoom \<and> ells \<noteq> [] then
         (Min (set (map (\<lambda>ell. snd (center ell)) ells)) - 400,
          Max (set (map (\<lambda>ell. snd (center ell)) ells)) + 400)
       else ylim (snd (default_scaling spikeout SCALING (default_axes ax))))"
    unfolding plot_rfs_ok [OF p c] Let_def e [symmetric] by (auto simp del: set_map)
  from r show "get_rf_ells ls_cells (so_d_sta spikeout)
        (fst (default_scaling spikeout SCALING (default_axes ax))) sd_mult = Inr ells"
    by (simp add: plot_rfs_patches)
  show "b_zoom \<and> ells \<noteq> [] \<Longrightarrow>
         xlim ax' = (Min (set (map (\<lambda>ell. fst (center ell)) ells)) - 400,
                     Max (set (map (\<lambda>ell. fst (center ell)) ells)) + 400)"
    by (simp add: x del: set_map)
  show "b_zoom \<and> ells \<noteq> [] \<Longrightarrow>
         ylim ax' = (Min (set (map (\<lambda>ell. snd (center ell)) ells)) - 400,
                     Max (set (map (\<lambda>ell. snd (center ell)) ells)) + 400)"
    by (simp add: y del: set_map)
  show "\<not> b_zoom \<or> ells = [] \<Longrightarrow>
         xlim ax' = xlim (snd (default_scaling spikeout SCALING (default_axes ax)))"
    by (auto simp: x simp del: set_map)
  show "\<not> b_zoom \<or> ells = [] \<Longrightarrow>
         ylim ax' = ylim (snd (default_scaling spikeout SCALING (default_axes ax)))"
    by (auto simp: y simp del: set_map)
next
  assume a: "set ls_cells \<subseteq> dom (so_d_sta spikeout) \<and>
    (\<forall>cs. facecolor = PerCell cs \<longrightarrow> length ls_cells \<le> length cs)"
  then have c: "length ls_cells \<le> length (broadcast_facecolor facecolor (length ls_cells))"
    by (cases facecolor) (simp_all add: broadcast_facecolor_def)
  from a have p: "set ls_cells \<subseteq> dom (so_d_sta spikeout)" ..
  show "\<exists>ax' ells g'.
         plot_rfs g spikeout ls_cells ell_color ax sd_mult alpha facecolor SCALING b_label b_zoom lw
           = Inr (ax', ells, g')"
    unfolding plot_rfs_ok [OF p c] Let_def by simp
qed

text \<open>Centres (10, 20) and (60, 10) give the limits below; no cell leaves 0 to 5000.\<close>

theorem plot_rfs_auto_zoom_witness:
  "(\<exists>ax' ells g'.
      plot_rfs ex_rng ex_data [7, 3] (Some (ColorStr ''r'')) None 2 (6 / 10)
        (Uniform (ColorStr ''k'')) None False True 1 = Inr (ax', ells, g') \<and>
      xlim ax' = (- 390, 460) \<and> ylim ax' = (- 390, 420)) \<and>
   (\<exists>ax' ells g'.
      plot_rfs ex_rng ex_data [] (Some (ColorStr ''r'')) None 2 (6 / 10)
        (Uniform (ColorStr ''k'')) None False True 1 = Inr (ax', ells, g') \<and>
      xlim ax' = (0, 5000) \<and> ylim ax' = (0, 5000))"
proof -
  note t1 = plot_rfs_auto_zoom [of ex_rng ex_data "[7, 3]" "Some (ColorStr ''r'')" None 2 "6 / 10"
      "Uniform (ColorStr ''k'')" None False True 1]
  note t2 = plot_rfs_auto_zoom [of ex_rng ex_data "[]" "Some (ColorStr ''r'')" None 2 "6 / 10"
      "Uniform (ColorStr ''k'')" None False True 1]
  have p1: "set [7, 3] \<subseteq> dom (so_d_sta ex_data) \<and>
      (\<forall>cs. Uniform (ColorStr ''k'') = PerCell cs \<longrightarrow> length [7, 3 :: int] \<le> length cs)"
    by (simp add: ex_data_def ex_d_sta_def)
  have p2: "set [] \<subseteq> dom (so_d_sta ex_data) \<and>
      (\<forall>cs. Uniform (ColorStr ''k'') = PerCell cs \<longrightarrow> length ([] :: int list) \<le> length cs)"
    by simp
  from t1 p1 obtain ax' ells g' where
    r: "plot_rfs ex_rng ex_data [7, 3] (Some (ColorStr ''r'')) None 2 (6 / 10)
        (Uniform (ColorStr ''k'')) None False True 1 = Inr (ax', ells, g')"
    by blast
  with t1 have ge: "get_rf_ells [7, 3] (so_d_sta ex_data)
       (fst (default_scaling ex_data None (default_axes None))) 2 = Inr ells"
    and z: "True \<and> ells \<noteq> [] \<longrightarrow>
         xlim ax' = (Min (set (map (\<lambda>ell. fst (center ell)) ells)) - 400,
                     Max (set (map (\<lambda>ell. fst (center ell)) ells)) + 400) \<and>
         ylim ax' = (Min (set (map (\<lambda>ell. snd (center ell)) ells)) - 400,
                     Max (set (map (\<lambda>ell. snd (center ell)) ells)) + 400)"
    by blast+
  from ge have e: "ells = [\<lparr> center = (10, 20), width = 120, height = 160, angle = 5 \<rparr>,
                          \<lparr> center = (60, 10), width = 40, height = 80, angle = 0 \<rparr>]"
    by (simp add: default_scaling_def ex_data_def ex_d_sta_def rf_ell_def dict_get_def)
  from z have "xlim ax' = (- 390, 460) \<and> ylim ax' = (- 390, 420)"
    by (simp add: e)
  with r have first: "\<exists>ax' ells g'.
      plot_rfs ex_rng ex_data [7, 3] (Some (ColorStr ''r'')) None 2 (6 / 10)
        (Uniform (ColorStr ''k'')) None False True 1 = Inr (ax', ells, g') \<and>
      xlim ax' = (- 390, 460) \<and> ylim ax' = (- 390, 420)"
    by blast
  from t2 p2 obtain ax2 ells2 g2 where
    r2: "plot_rfs ex_rng ex_data [] (Some (ColorStr ''r'')) None 2 (6 / 10)
        (Uniform (ColorStr ''k'')) None False True 1 = Inr (ax2, ells2, g2)"
    by blast
  with t2 have "get_rf_ells [] (so_d_sta ex_data)
       (fst (default_scaling ex_data None (default_axes None))) 2 = Inr ells2"
    and "\<not> True \<or> ells2 = [] \<longrightarrow>
         xlim ax2 = xlim (snd (default_scaling ex_data None (default_axes None))) \<and>
         ylim ax2 = ylim (snd (default_scaling ex_data None (default_axes None)))"
    by blast+
  then have "xlim ax2 = (0, 5000) \<and> ylim ax2 = (0, 5000)"
    by (simp add: default_scaling_def)
  with r2 first show ?thesis by blast
qed

text \<open>
  Claim C6. A face colour that is one colour (an RGB tuple, or a string) is given to
  every ellipse \<^verbatim>\<open>plot_rfs\<close> draws: the patches it adds to the axes are its ellipses, one
  for each cell, and each has that face colour.
\<close>

theorem plot_rfs_uniform_facecolor:
  assumes "set ls_cells \<subseteq> dom (so_d_sta spikeout)"
  shows "\<exists>ax' ells g' new.
     plot_rfs g spikeout ls_cells ell_color ax sd_mult alpha (Uniform c) SCALING b_label b_zoom lw
       = Inr (ax', ells, g') \<and>
     patches ax' = patches (default_axes ax) @ new \<and>
     map p_ellipse new = ells \<and> length new = length ls_cells \<and>
     (\<forall>p\<in>set new. p_facecolor p = c)"
proof -
  have c: "length ls_cells \<le> length (broadcast_facecolor (Uniform c) (length ls_cells))"
    by (simp add: broadcast_facecolor_def)
  have f: "p_ellipse \<circ> (\<lambda>(ell, fc). \<lparr> p_ellipse = ell, p_alpha = a, p_edgecolor = e,
                        p_facecolor = fc, p_linewidth = w \<rparr>) = fst" for a e w
    by (auto simp: fun_eq_iff)
  show ?thesis
    unfolding plot_rfs_ok [OF assms c] Let_def
    by (cases SCALING) (auto simp: broadcast_facecolor_def default_scaling_def f dest: set_zip_rightD)
qed

text \<open>Red as an RGB triple, on two cells.\<close>

theorem plot_rfs_uniform_facecolor_witness:
  "set [7, 3] \<subseteq> dom (so_d_sta ex_data) \<and>
   (\<exists>ax' ells g'.
      plot_rfs ex_rng ex_data [7, 3] (Some (ColorStr ''r'')) None 2 (6 / 10)
        (Uniform (ColorSeq [1, 0, 0])) None False True 1 = Inr (ax', ells, g') \<and>
      map p_facecolor (patches ax') = [ColorSeq [1, 0, 0], ColorSeq [1, 0, 0]])"
proof -
  have p: "set [7, 3] \<subseteq> dom (so_d_sta ex_data)"
    by (simp add: ex_data_def ex_d_sta_def)
  from plot_rfs_uniform_facecolor [OF p, of ex_rng "Some (ColorStr ''r'')" None 2 "6 / 10"
      "ColorSeq [1, 0, 0]" None False True 1]
  obtain ax' ells g' new where
    r: "plot_rfs ex_rng ex_data [7, 3] (Some (ColorStr ''r'')) None 2 (6 / 10)
        (Uniform (ColorSeq [1, 0, 0])) None False True 1 = Inr (ax', ells, g')"
    and n: "patches ax' = patches (default_axes None) @ new" "length new = 2"
      "\<forall>p\<in>set new. p_facecolor p = ColorSeq [1, 0, 0]"
    by auto
  from n(2) obtain a b where "new = [a, b]"
    by (cases new; cases "tl new"; cases "tl (tl new)") auto
  with n have m: "map p_facecolor (patches ax') = [ColorSeq [1, 0, 0], ColorSeq [1, 0, 0]]"
    by (simp add: default_axes_def new_axes_def)
  show ?thesis
    by (intro conjI exI) (rule p, rule r, rule m)
qed

section \<open>Properties of the receptive-field grid\<close>

lemma keep_fitted_dom: "set (keep_fitted data ls_cells) \<subseteq> dom (so_d_sta data)"
  by (auto simp: keep_fitted_def)

lemma keep_fitted_filter:
  "keep_fitted data ls_cells = filter (\<lambda>c. c \<in> dom (so_d_sta data)) ls_cells"
  by (simp add: keep_fitted_def dom_def)

lemma type_rfs_body_Inr:
  "type_rfs_body data d_IDs cols fcs alpha labels b_zoom sd_mult i k (axs, g) = Inr (axs', g') \<longleftrightarrow>
     (\<exists>ls_cells ax' ells.
        map_of d_IDs k = Some ls_cells \<and> i < length labels \<and> i < length axs \<and>
        i < length cols \<and> i < length fcs \<and>
        plot_rfs g data (keep_fitted data ls_cells) (Some (cols ! i)) (Some (axs ! i)) sd_mult alpha
          (fcs ! i) None False b_zoom 1 = Inr (ax', ells, g') \<and>
        axs' = axs[i := ax'\<lparr>title := labels ! i @ '' (n='' @
                 str_nat (length (keep_fitted data ls_cells)) @ '') RFs''\<rparr>])"
  by (auto simp: bind_err_Inr dict_get_Inr list_get_Inr Let_def)

lemma rfs_loop_panels:
  assumes run: "enumerate_loop (type_rfs_body data d_IDs cols fcs alpha labels b_zoom sd_mult)
       0 keys (axs, g) = Inr (axs', g')"
    and i: "i < length keys"
  shows "i < length axs \<and> length axs' = length axs \<and>
     (\<exists>ls_cells ells. map_of d_IDs (keys ! i) = Some ls_cells \<and> i < length labels \<and>
        get_rf_ells (keep_fitted data ls_cells) (so_d_sta data) (so_NOISE_GRID_SIZE data) sd_mult
          = Inr ells \<and>
        map p_ellipse (patches (axs' ! i)) = map p_ellipse (patches (axs ! i)) @ ells \<and>
        title (axs' ! i) = labels ! i @ '' (n='' @
           str_nat (length (keep_fitted data ls_cells)) @ '') RFs'')"
proof -
  let ?Q = "\<lambda>i k a a'. \<exists>ls_cells ells. map_of d_IDs k = Some ls_cells \<and> i < length labels \<and>
        get_rf_ells (keep_fitted data ls_cells) (so_d_sta data) (so_NOISE_GRID_SIZE data) sd_mult
          = Inr ells \<and>
        map p_ellipse (patches a') = map p_ellipse (patches a) @ ells \<and>
        title a' = labels ! i @ '' (n='' @ str_nat (length (keep_fitted data ls_cells)) @ '') RFs''"
  have step: "i < length (fst s) \<and> length (fst s') = length (fst s) \<and>
      (\<forall>m. m \<noteq> i \<longrightarrow> fst s' ! m = fst s ! m) \<and> ?Q i x (fst s ! i) (fst s' ! i)"
    if b: "type_rfs_body data d_IDs cols fcs alpha labels b_zoom sd_mult i x s = Inr s'"
    for i x s s'
  proof -
    obtain a u where s: "s = (a, u)" by (cases s)
    obtain a' u' where s': "s' = (a', u')" by (cases s')
    from b [unfolded s s' type_rfs_body_Inr] obtain ls_cells ax' ells where
      m: "map_of d_IDs x = Some ls_cells" and l: "i < length labels" "i < length a"
      and p: "plot_rfs u data (keep_fitted data ls_cells) (Some (cols ! i)) (Some (a ! i)) sd_mult alpha
          (fcs ! i) None False b_zoom 1 = Inr (ax', ells, u')"
      and a': "a' = a[i := ax'\<lparr>title := labels ! i @ '' (n='' @
                 str_nat (length (keep_fitted data ls_cells)) @ '') RFs''\<rparr>]"
      by blast
    from plot_rfs_patches [OF p] have
      "get_rf_ells (keep_fitted data ls_cells) (so_d_sta data) (so_NOISE_GRID_SIZE data) sd_mult
          = Inr ells"
      "map p_ellipse (patches ax') = map p_ellipse (patches (a ! i)) @ ells"
      by (simp_all add: default_scaling_def default_axes_def)
    with m l have "?Q i x (a ! i) (a' ! i)"
      unfolding a' by simp
    with l show ?thesis by (simp add: s s' a')
  qed
  from enumerate_loop_frame [where sel = fst and Q = ?Q, OF step run] i
  have "?Q i (keys ! i) (axs ! i) (axs' ! i)" and "i < length axs" and "length axs' = length axs"
    by (cases keys; fastforce)+
  then show ?thesis by blast
qed

lemma plot_type_rfs_loop:
  "plot_type_rfs g data ls_RGC_keys ls_colors axs ls_facecolors alpha b_ticks_off
       ls_RGC_labels d_IDs b_zoom sd_mult =
     bind_err (enumerate_loop
         (type_rfs_body data (if_none d_IDs (so_d_main_IDs data)) ls_colors
            (if_none ls_facecolors (map Uniform ls_colors)) alpha
            (if_none ls_RGC_labels (if_none ls_RGC_keys (map fst (if_none d_IDs (so_d_main_IDs data)))))
            b_zoom sd_mult)
         0 (if_none ls_RGC_keys (map fst (if_none d_IDs (so_d_main_IDs data))))
         (if_none axs
            (replicate (length (if_none ls_RGC_keys (map fst (if_none d_IDs (so_d_main_IDs data)))))
               new_axes), g))
       (\<lambda>(axs, g). Inr (if b_ticks_off then map ticks_off axs else axs, g))"
  by (simp add: plot_type_rfs_def Let_def)



lemmas ex_rfs_eval = plot_type_rfs_def plot_rfs_def default_axes_def default_scaling_def
  default_ell_color_def broadcast_facecolor_def add_ell_def zoom_def np_min_def np_max_def
  keep_fitted_def ex_data_def ex_d_sta_def dict_get_def list_get_def Let_def rf_ell_def
  new_axes_def ticks_off_def np_random_rand3_def

lemma ex_rfs_run:
  "\<exists>axs' g'. plot_type_rfs ex_rng ex_data (Some [''OffP'']) [ColorStr ''r''] None None (6 / 10) True
      None None False 2 = Inr (axs', g')"
  by (simp add: ex_rfs_eval)

section \<open>Properties of the time-course grid\<close>

lemma waveforms_present:
  "set ls_cells \<subseteq> dom d \<Longrightarrow>
   waveforms channel d ls_cells = Inr (map (\<lambda>n_ID. channel (the (d n_ID))) ls_cells)"
  by (induction ls_cells) (auto simp: dict_get_def)

lemma plot_mean_band_empty: "\<exists>e. plot_mean_band [] cols ch alpha lw ax = Inl e"
  by (simp add: plot_mean_band_def np_array_def list_get_def)

lemma plot_mean_band_ok:
  assumes "rows \<noteq> []" and "rectangular rows"
    and "ch < length cols"
  shows "plot_mean_band rows cols ch alpha lw ax =
     Inr (ax\<lparr>lines := lines ax @
            [tc_line (Vec (map (\<lambda>j. list_mean (column rows j)) [0..<length (hd rows)]))
               (cols ! ch) lw None],
          bands := bands ax @
            [tc_band (length (hd rows))
               (Vec (map (\<lambda>j. list_mean (column rows j)) [0..<length (hd rows)]))
               (Vec (map (\<lambda>j. list_std (column rows j)) [0..<length (hd rows)]))
               alpha (cols ! ch)]\<rparr>)"
  using assms
  by (simp add: plot_mean_band_def np_array_def list_get_def Let_def)

lemma plot_mean_band_Inr_D:
  assumes "plot_mean_band rows cols ch alpha lw ax = Inr ax'"
  shows "rows \<noteq> [] \<and> rectangular rows \<and> ch < length cols"
proof -
  from assms plot_mean_band_empty [of cols ch alpha lw ax] have ne: "rows \<noteq> []" by auto
  with assms show ?thesis
    by (auto simp: plot_mean_band_def np_array_def list_get_def Let_def bind_err_Inr
        split: if_splits)
qed

lemma plot_cells_lines:
  assumes "for_loop (plot_cell_tcs d cols alpha lw) ls ax = Inr ax'"
  shows "ax' = ax\<lparr>lines := lines ax @ concat (map (\<lambda>n_ID.
           [tc_line (Vec (RedTimeCourse (the (d n_ID)))) (cols ! 0) lw (Some alpha),
            tc_line (Vec (BlueTimeCourse (the (d n_ID)))) (cols ! 1) lw (Some alpha)]) ls)\<rparr>"
  using assms
proof (induction ls arbitrary: ax)
  case Nil
  then show ?case by simp
next
  case (Cons n_ID ls)
  from Cons.prems obtain a1 where s: "plot_cell_tcs d cols alpha lw n_ID ax = Inr a1"
    and r: "for_loop (plot_cell_tcs d cols alpha lw) ls a1 = Inr ax'"
    by (auto simp: bind_err_Inr)
  from s have "a1 = ax\<lparr>lines := lines ax @
           [tc_line (Vec (RedTimeCourse (the (d n_ID)))) (cols ! 0) lw (Some alpha),
            tc_line (Vec (BlueTimeCourse (the (d n_ID)))) (cols ! 1) lw (Some alpha)]\<rparr>"
    by (auto simp: plot_cell_tcs_def bind_err_Inr dict_get_Inr list_get_Inr Let_def)
  with Cons.IH [OF r] show ?case by simp
qed

lemma plot_cells_ok:
  assumes "set ls \<subseteq> dom d" and "2 \<le> length cols"
  shows "\<exists>ax'. for_loop (plot_cell_tcs d cols alpha lw) ls ax = Inr ax'"
  using assms(1)
proof (induction ls arbitrary: ax)
  case Nil
  then show ?case by simp
next
  case (Cons n_ID ls)
  then obtain fit where "d n_ID = Some fit" by auto
  then have g: "dict_get d n_ID = Inr fit"
    by (simp add: dict_get_def)
  from assms(2) have c: "list_get cols 0 = Inr (cols ! 0)" "list_get cols (Suc 0) = Inr (cols ! 1)"
    by (auto simp: list_get_def)
  obtain a1 where a1: "plot_cell_tcs d cols alpha lw n_ID ax = Inr a1"
    by (simp add: plot_cell_tcs_def g c Let_def)
  from Cons.prems have "set ls \<subseteq> dom d" by simp
  from Cons.IH [OF this, of a1] obtain ax' where
    "for_loop (plot_cell_tcs d cols alpha lw) ls a1 = Inr ax'" ..
  with a1 show ?case by simp
qed

lemma tcs_panel_mean_Inr:
  assumes "tcs_panel data cols alpha True lw ls_cells label ax = Inr ax'"
  shows "\<exists>red blue.
     waveforms RedTimeCourse (so_d_sta data) (keep_fitted data ls_cells) = Inr red \<and>
     waveforms BlueTimeCourse (so_d_sta data) (keep_fitted data ls_cells) = Inr blue \<and>
     keep_fitted data ls_cells \<noteq> [] \<and> 2 \<le> length cols \<and> rectangular red \<and> rectangular blue \<and>
     ax' = ax\<lparr>hlines := hlines ax @ [0],
              lines := lines ax @
                [tc_line (Vec (map (\<lambda>j. list_mean (column red j)) [0..<length (hd red)]))
                   (cols ! 0) lw None,
                 tc_line (Vec (map (\<lambda>j. list_mean (column blue j)) [0..<length (hd blue)]))
                   (cols ! 1) lw None],
              bands := bands ax @
                [tc_band (length (hd red))
                   (Vec (map (\<lambda>j. list_mean (column red j)) [0..<length (hd red)]))
                   (Vec (map (\<lambda>j. list_std (column red j)) [0..<length (hd red)]))
                   alpha (cols ! 0),
                 tc_band (length (hd blue))
                   (Vec (map (\<lambda>j. list_mean (column blue j)) [0..<length (hd blue)]))
                   (Vec (map (\<lambda>j. list_std (column blue j)) [0..<length (hd blue)]))
                   alpha (cols ! 1)],
              title := label @ '' (n='' @ str_nat (length (keep_fitted data ls_cells)) @
                 '') timecourses''\<rparr>"
proof -
  let ?cells = "keep_fitted data ls_cells"
  let ?red = "map (\<lambda>n_ID. RedTimeCourse (the (so_d_sta data n_ID))) ?cells"
  let ?blue = "map (\<lambda>n_ID. BlueTimeCourse (the (so_d_sta data n_ID))) ?cells"
  have w: "waveforms ch (so_d_sta data) ?cells = Inr (map (\<lambda>n_ID. ch (the (so_d_sta data n_ID))) ?cells)" for ch
    by (rule waveforms_present [OF keep_fitted_dom])
  from assms obtain a1 a2 where
    r: "plot_mean_band ?red cols 0 alpha lw (ax\<lparr>hlines := hlines ax @ [0]\<rparr>) = Inr a1"
    and b: "plot_mean_band ?blue cols 1 alpha lw a1 = Inr a2"
    and t: "ax' = a2\<lparr>title := label @ '' (n='' @ str_nat (length ?cells) @ '') timecourses''\<rparr>"
    by (auto simp: tcs_panel_def Let_def w bind_err_Inr)
  from plot_mean_band_Inr_D [OF r] have r': "?red \<noteq> []" "rectangular ?red" "0 < length cols"
    by auto
  from plot_mean_band_Inr_D [OF b] have b': "?blue \<noteq> []" "rectangular ?blue" "1 < length cols"
    by auto
  from r plot_mean_band_ok [OF r', of alpha lw "ax\<lparr>hlines := hlines ax @ [0]\<rparr>"]
  have a1: "a1 = ax\<lparr>hlines := hlines ax @ [0]\<rparr>\<lparr>lines := lines (ax\<lparr>hlines := hlines ax @ [0]\<rparr>) @
            [tc_line (Vec (map (\<lambda>j. list_mean (column ?red j)) [0..<length (hd ?red)]))
               (cols ! 0) lw None],
          bands := bands (ax\<lparr>hlines := hlines ax @ [0]\<rparr>) @
            [tc_band (length (hd ?red))
               (Vec (map (\<lambda>j. list_mean (column ?red j)) [0..<length (hd ?red)]))
               (Vec (map (\<lambda>j. list_std (column ?red j)) [0..<length (hd ?red)]))
               alpha (cols ! 0)]\<rparr>"
    by simp
  from b plot_mean_band_ok [OF b', of alpha lw a1]
  have a2: "a2 = a1\<lparr>lines := lines a1 @
            [tc_line (Vec (map (\<lambda>j. list_mean (column ?blue j)) [0..<length (hd ?blue)]))
               (cols ! 1) lw None],
          bands := bands a1 @
            [tc_band (length (hd ?blue))
               (Vec (map (\<lambda>j. list_mean (column ?blue j)) [0..<length (hd ?blue)]))
               (Vec (map (\<lambda>j. list_std (column ?blue j)) [0..<length (hd ?blue)]))
               alpha (cols ! 1)]\<rparr>"
    by simp
  have "ax' = ax\<lparr>hlines := hlines ax @ [0],
              lines := lines ax @
                [tc_line (Vec (map (\<lambda>j. list_mean (column ?red j)) [0..<length (hd ?red)]))
                   (cols ! 0) lw None,
                 tc_line (Vec (map (\<lambda>j. list_mean (column ?blue j)) [0..<length (hd ?blue)]))
                   (cols ! 1) lw None],
              bands := bands ax @
                [tc_band (length (hd ?red))
                   (Vec (map (\<lambda>j. list_mean (column ?red j)) [0..<length (hd ?red)]))
                   (Vec (map (\<lambda>j. list_std (column ?red j)) [0..<length (hd ?red)]))
                   alpha (cols ! 0),
                 tc_band (length (hd ?blue))
                   (Vec (map (\<lambda>j. list_mean (column ?blue j)) [0..<length (hd ?blue)]))
                   (Vec (map (\<lambda>j. list_std (column ?blue j)) [0..<length (hd ?blue)]))
                   alpha (cols ! 1)],
              title := label @ '' (n='' @ str_nat (length ?cells) @ '') timecourses''\<rparr>"
    unfolding t a2 a1 by simp
  moreover from r'(1) have "?cells \<noteq> []" by simp
  moreover from b'(3) have "2 \<le> length cols" by simp
  ultimately show ?thesis
    using w [of RedTimeCourse] w [of BlueTimeCourse] r'(2) b'(2) by blast
qed



lemma tcs_panel_raw_Inr:
  assumes "tcs_panel data cols alpha False lw ls_cells label ax = Inr ax'"
  shows "ax' = ax\<lparr>hlines := hlines ax @ [0],
              lines := lines ax @ concat (map (\<lambda>n_ID.
                [tc_line (Vec (RedTimeCourse (the (so_d_sta data n_ID)))) (cols ! 0) lw (Some alpha),
                 tc_line (Vec (BlueTimeCourse (the (so_d_sta data n_ID)))) (cols ! 1) lw (Some alpha)])
                (keep_fitted data ls_cells)),
              title := label @ '' (n='' @ str_nat (length (keep_fitted data ls_cells)) @
                 '') timecourses''\<rparr>"
proof -
  from assms obtain a1 where
    l: "for_loop (plot_cell_tcs (so_d_sta data) cols alpha lw) (keep_fitted data ls_cells)
          (ax\<lparr>hlines := hlines ax @ [0]\<rparr>) = Inr a1"
    and t: "ax' = a1\<lparr>title := label @ '' (n='' @ str_nat (length (keep_fitted data ls_cells)) @
                 '') timecourses''\<rparr>"
    by (auto simp: tcs_panel_def Let_def bind_err_Inr)
  show ?thesis unfolding t plot_cells_lines [OF l] by simp
qed

lemma tcs_panel_raw_ok:
  assumes "2 \<le> length cols"
  shows "\<exists>ax'. tcs_panel data cols alpha False lw ls_cells label ax = Inr ax'"
proof -
  from plot_cells_ok [OF keep_fitted_dom assms]
  obtain a1 where "for_loop (plot_cell_tcs (so_d_sta data) cols alpha lw) (keep_fitted data ls_cells)
          (ax\<lparr>hlines := hlines ax @ [0]\<rparr>) = Inr a1" by blast
  then show ?thesis by (simp add: tcs_panel_def Let_def)
qed

lemma type_tcs_body_Inr:
  "type_tcs_body data cols alpha bm labels lw i k axs = Inr axs' \<longleftrightarrow>
     (\<exists>ls_cells a'. map_of (so_d_main_IDs data) k = Some ls_cells \<and> i < length labels \<and>
        i < length axs \<and>
        tcs_panel data cols alpha bm lw ls_cells (labels ! i) (axs ! i) = Inr a' \<and>
        axs' = axs[i := a'])"
  by (auto simp: type_tcs_body_def bind_err_Inr dict_get_Inr list_get_Inr)

lemma tcs_loop_panels:
  assumes run: "enumerate_loop (type_tcs_body data cols alpha bm labels lw) 0 keys axs = Inr axs'"
    and i: "i < length keys"
  shows "\<exists>ls_cells. map_of (so_d_main_IDs data) (keys ! i) = Some ls_cells \<and>
     i < length labels \<and> i < length axs \<and>
     tcs_panel data cols alpha bm lw ls_cells (labels ! i) (axs ! i) = Inr (axs' ! i)"
proof -
  let ?Q = "\<lambda>i k a a'. \<exists>ls_cells. map_of (so_d_main_IDs data) k = Some ls_cells \<and>
     i < length labels \<and> tcs_panel data cols alpha bm lw ls_cells (labels ! i) a = Inr a'"
  have step: "i < length (id s) \<and> length (id s') = length (id s) \<and>
      (\<forall>m. m \<noteq> i \<longrightarrow> id s' ! m = id s ! m) \<and> ?Q i x (id s ! i) (id s' ! i)"
    if "type_tcs_body data cols alpha bm labels lw i x s = Inr s'" for i x s s'
    using that by (auto simp: type_tcs_body_Inr)
  from enumerate_loop_frame [where sel = id and Q = ?Q, OF step run] i
  have "?Q i (keys ! i) (axs ! i) (axs' ! i)" and "i < length axs"
    by (cases keys; fastforce)+
  then show ?thesis by blast
qed



lemma plot_type_tcs_loop:
  "plot_type_tcs data ls_RGC_keys axs ls_colors alpha bm ls_RGC_labels lw d_IDs =
     enumerate_loop
       (type_tcs_body data (if_none ls_colors [ColorStr ''C1'', ColorStr ''C0'']) alpha bm
          (if_none ls_RGC_labels (if_none ls_RGC_keys (map fst (if_none d_IDs (so_d_main_IDs data)))))
          lw)
       0 (if_none ls_RGC_keys (map fst (if_none d_IDs (so_d_main_IDs data))))
       (if_none axs
          (replicate (length (if_none ls_RGC_keys (map fst (if_none d_IDs (so_d_main_IDs data)))))
             new_axes))"
  by (simp add: plot_type_tcs_def Let_def)

lemmas ex_eval = plot_type_tcs_def type_tcs_body_def tcs_panel_def plot_mean_band_def np_array_def
  rectangular_def keep_fitted_def ex_data_def ex_d_sta_def dict_get_def list_get_def Let_def
  column_def list_mean_def list_std_def tc_line_def tc_band_def new_axes_def plot_cell_tcs_def


lemma ex_tcs_raw_run:
  "\<exists>axs'. plot_type_tcs ex_data (Some [''OffP'']) None None (6 / 10) False None 1 None = Inr axs'"
  by (simp add: ex_eval)








section \<open>The cells that the grids draw\<close>

text \<open>
  Claim C2. In both grids the panel of the \<open>i\<close>-th key shows the cells of its list that are
  keys of \<^verbatim>\<open>d_sta\<close>, and no others: \<^verbatim>\<open>keep_fitted\<close> is that filter; the receptive-field panel
  gets the ellipses of \<^verbatim>\<open>get_rf_ells\<close> on the filtered list, the time-course panel the
  waveforms (or their means) of the filtered list, and the title of either reports the
  length of the filtered list. The receptive-field grid reads the list from \<^verbatim>\<open>d_IDs\<close>,
  the time-course grid from \<^verbatim>\<open>data.types.d_main_IDs\<close>.
\<close>

theorem type_grids_filter_cells:
  assumes keys: "keys = if_none ls_RGC_keys (map fst (if_none d_IDs (so_d_main_IDs data)))"
    and axs0: "axs0 = if_none axs (replicate (length keys) new_axes)"
    and labels: "labels = if_none ls_RGC_labels keys"
    and i: "i < length keys"
  shows "(\<forall>ls_cells. keep_fitted data ls_cells = filter (\<lambda>c. c \<in> dom (so_d_sta data)) ls_cells) \<and>
     (\<forall>axs' g'.
        plot_type_rfs g data ls_RGC_keys ls_colors axs ls_facecolors alpha b_ticks_off
          ls_RGC_labels d_IDs b_zoom sd_mult = Inr (axs', g') \<longrightarrow>
        (\<exists>ls_cells ells.
           map_of (if_none d_IDs (so_d_main_IDs data)) (keys ! i) = Some ls_cells \<and>
           get_rf_ells (keep_fitted data ls_cells) (so_d_sta data) (so_NOISE_GRID_SIZE data) sd_mult
             = Inr ells \<and>
           map p_ellipse (patches (axs' ! i)) = map p_ellipse (patches (axs0 ! i)) @ ells \<and>
           title (axs' ! i) = labels ! i @ '' (n='' @
              str_nat (length (keep_fitted data ls_cells)) @ '') RFs'')) \<and>
     (\<forall>axs'.
        plot_type_tcs data ls_RGC_keys axs tc_colors alpha b_plot_mean ls_RGC_labels lw d_IDs
          = Inr axs' \<longrightarrow>
        (\<exists>ls_cells red blue.
           map_of (so_d_main_IDs data) (keys ! i) = Some ls_cells \<and>
           waveforms RedTimeCourse (so_d_sta data) (keep_fitted data ls_cells) = Inr red \<and>
           waveforms BlueTimeCourse (so_d_sta data) (keep_fitted data ls_cells) = Inr blue \<and>
           map l_ydata (lines (axs' ! i)) = map l_ydata (lines (axs0 ! i)) @
             (if b_plot_mean
              then [Vec (map (\<lambda>j. list_mean (column red j)) [0..<length (hd red)]),
                    Vec (map (\<lambda>j. list_mean (column blue j)) [0..<length (hd blue)])]
              else concat (map (\<lambda>n_ID.
                     [Vec (RedTimeCourse (the (so_d_sta data n_ID))),
                      Vec (BlueTimeCourse (the (so_d_sta data n_ID)))])
                     (keep_fitted data ls_cells))) \<and>
           title (axs' ! i) = labels ! i @ '' (n='' @
              str_nat (length (keep_fitted data ls_cells)) @ '') timecourses''))"
proof (intro conjI allI impI)
  show "keep_fitted data ls_cells = filter (\<lambda>c. c \<in> dom (so_d_sta data)) ls_cells" for ls_cells
    by (rule keep_fitted_filter)
next
  fix axs' g'
  assume "plot_type_rfs g data ls_RGC_keys ls_colors axs ls_facecolors alpha b_ticks_off
          ls_RGC_labels d_IDs b_zoom sd_mult = Inr (axs', g')"
  then obtain axs1 where
    loop: "enumerate_loop
         (type_rfs_body data (if_none d_IDs (so_d_main_IDs data)) ls_colors
            (if_none ls_facecolors (map Uniform ls_colors)) alpha labels b_zoom sd_mult)
         0 keys (axs0, g) = Inr (axs1, g')"
    and t: "axs' = (if b_ticks_off then map ticks_off axs1 else axs1)"
    by (auto simp: plot_type_rfs_loop keys axs0 labels bind_err_Inr)
  from rfs_loop_panels [OF loop i] obtain ls_cells ells where
    il: "i < length axs0" "length axs1 = length axs0"
    and m: "map_of (if_none d_IDs (so_d_main_IDs data)) (keys ! i) = Some ls_cells"
    and e: "get_rf_ells (keep_fitted data ls_cells) (so_d_sta data) (so_NOISE_GRID_SIZE data) sd_mult
             = Inr ells"
    and p: "map p_ellipse (patches (axs1 ! i)) = map p_ellipse (patches (axs0 ! i)) @ ells"
    and ti: "title (axs1 ! i) = labels ! i @ '' (n='' @
              str_nat (length (keep_fitted data ls_cells)) @ '') RFs''"
    by blast
  from il have "patches (axs' ! i) = patches (axs1 ! i)" "title (axs' ! i) = title (axs1 ! i)"
    by (simp_all add: t ticks_off_def)
  with m e p ti
  show "\<exists>ls_cells ells.
           map_of (if_none d_IDs (so_d_main_IDs data)) (keys ! i) = Some ls_cells \<and>
           get_rf_ells (keep_fitted data ls_cells) (so_d_sta data) (so_NOISE_GRID_SIZE data) sd_mult
             = Inr ells \<and>
           map p_ellipse (patches (axs' ! i)) = map p_ellipse (patches (axs0 ! i)) @ ells \<and>
           title (axs' ! i) = labels ! i @ '' (n='' @
              str_nat (length (keep_fitted data ls_cells)) @ '') RFs''"
    by auto
next
  fix axs'
  assume "plot_type_tcs data ls_RGC_keys axs tc_colors alpha b_plot_mean ls_RGC_labels lw d_IDs
          = Inr axs'"
  then have loop: "enumerate_loop
       (type_tcs_body data (if_none tc_colors [ColorStr ''C1'', ColorStr ''C0'']) alpha b_plot_mean
          labels lw) 0 keys axs0 = Inr axs'"
    by (simp add: plot_type_tcs_loop keys axs0 labels)
  from tcs_loop_panels [OF loop i] obtain ls_cells where
    m: "map_of (so_d_main_IDs data) (keys ! i) = Some ls_cells"
    and p: "tcs_panel data (if_none tc_colors [ColorStr ''C1'', ColorStr ''C0'']) alpha b_plot_mean lw
              ls_cells (labels ! i) (axs0 ! i) = Inr (axs' ! i)"
    by blast
  let ?cells = "keep_fitted data ls_cells"
  have w: "waveforms ch (so_d_sta data) ?cells = Inr (map (\<lambda>n_ID. ch (the (so_d_sta data n_ID))) ?cells)" for ch
    by (rule waveforms_present [OF keep_fitted_dom])
  have "map l_ydata (lines (axs' ! i)) = map l_ydata (lines (axs0 ! i)) @
             (if b_plot_mean
              then [Vec (map (\<lambda>j. list_mean (column (map (\<lambda>n_ID. RedTimeCourse (the (so_d_sta data n_ID))) ?cells) j))
                      [0..<length (hd (map (\<lambda>n_ID. RedTimeCourse (the (so_d_sta data n_ID))) ?cells))]),
                    Vec (map (\<lambda>j. list_mean (column (map (\<lambda>n_ID. BlueTimeCourse (the (so_d_sta data n_ID))) ?cells) j))
                      [0..<length (hd (map (\<lambda>n_ID. BlueTimeCourse (the (so_d_sta data n_ID))) ?cells))])]
              else concat (map (\<lambda>n_ID.
                     [Vec (RedTimeCourse (the (so_d_sta data n_ID))),
                      Vec (BlueTimeCourse (the (so_d_sta data n_ID)))])
                     ?cells)) \<and>
           title (axs' ! i) = labels ! i @ '' (n='' @ str_nat (length ?cells) @ '') timecourses''"
  proof (cases b_plot_mean)
    case True
    with p have p': "tcs_panel data (if_none tc_colors [ColorStr ''C1'', ColorStr ''C0'']) alpha True lw
              ls_cells (labels ! i) (axs0 ! i) = Inr (axs' ! i)"
      by simp
    from tcs_panel_mean_Inr [OF p'] show ?thesis
      by (auto simp: w True tc_line_def)
  next
    case False
    have c: "map l_ydata (concat (map (\<lambda>n_ID. [tc_line (Vec (f n_ID)) c0 lw (Some alpha),
                 tc_line (Vec (h n_ID)) c1 lw (Some alpha)]) xs)) =
        concat (map (\<lambda>n_ID. [Vec (f n_ID), Vec (h n_ID)]) xs)" for f h c0 c1 and xs :: "int list"
      by (induction xs) (simp_all add: tc_line_def)
    from p False have p': "tcs_panel data (if_none tc_colors [ColorStr ''C1'', ColorStr ''C0'']) alpha False lw
              ls_cells (labels ! i) (axs0 ! i) = Inr (axs' ! i)"
      by simp
    from tcs_panel_raw_Inr [OF p'] show ?thesis
      by (simp add: False c)
  qed
  with m w [of RedTimeCourse] w [of BlueTimeCourse]
  show "\<exists>ls_cells red blue.
           map_of (so_d_main_IDs data) (keys ! i) = Some ls_cells \<and>
           waveforms RedTimeCourse (so_d_sta data) (keep_fitted data ls_cells) = Inr red \<and>
           waveforms BlueTimeCourse (so_d_sta data) (keep_fitted data ls_cells) = Inr blue \<and>
           map l_ydata (lines (axs' ! i)) = map l_ydata (lines (axs0 ! i)) @
             (if b_plot_mean
              then [Vec (map (\<lambda>j. list_mean (column red j)) [0..<length (hd red)]),
                    Vec (map (\<lambda>j. list_mean (column blue j)) [0..<length (hd blue)])]
              else concat (map (\<lambda>n_ID.
                     [Vec (RedTimeCourse (the (so_d_sta data n_ID))),
                      Vec (BlueTimeCourse (the (so_d_sta data n_ID)))])
                     (keep_fitted data ls_cells))) \<and>
           title (axs' ! i) = labels ! i @ '' (n='' @
              str_nat (length (keep_fitted data ls_cells)) @ '') timecourses''"
    by blast
qed

text \<open>The type OffP lists the cells 7, 9 and 3; cell 9 has no fit and is not drawn.\<close>

theorem type_grids_filter_cells_witness:
  "(\<exists>axs' g'. plot_type_rfs ex_rng ex_data (Some [''OffP'']) [ColorStr ''r''] None None (6 / 10) True
      None None False 2 = Inr (axs', g') \<and>
      title (axs' ! 0) = ''OffP (n=2) RFs'' \<and>
      map p_ellipse (patches (axs' ! 0)) =
        [\<lparr> center = (10, 20), width = 120, height = 160, angle = 5 \<rparr>,
         \<lparr> center = (60, 10), width = 40, height = 80, angle = 0 \<rparr>]) \<and>
   (\<exists>axs'. plot_type_tcs ex_data (Some [''OffP'']) None None (6 / 10) False None 1 None = Inr axs' \<and>
      title (axs' ! 0) = ''OffP (n=2) timecourses'' \<and>
      map l_ydata (lines (axs' ! 0)) = [Vec [1, 2, 3], Vec [3, 2, 1], Vec [3, 2, 1], Vec [1, 2, 3]])"
proof -
  have k: "[''OffP''] = if_none (Some [''OffP'']) (map fst (if_none None (so_d_main_IDs ex_data)))"
    and a: "[new_axes] = if_none None (replicate (length [''OffP'']) new_axes)"
    and l: "[''OffP''] = if_none None [''OffP'']"
    and i: "0 < length [''OffP'']"
    by simp_all
  note t = type_grids_filter_cells [OF k a l i, of ex_rng "[ColorStr ''r'']" None "6 / 10" True False 2
      None False 1]
  have n: "str_nat (Suc (Suc 0)) = ''2''"
    by (simp add: str_nat.simps digit_char_def)
  have f: "keep_fitted ex_data [7, 9, 3] = [7, 3]"
    by (simp add: keep_fitted_def ex_data_def ex_d_sta_def)
  have m: "map_of (so_d_main_IDs ex_data) ''OffP'' = Some [7, 9, 3]"
    by (simp add: ex_data_def)
  from ex_rfs_run obtain axs' g' where
    r: "plot_type_rfs ex_rng ex_data (Some [''OffP'']) [ColorStr ''r''] None None (6 / 10) True
      None None False 2 = Inr (axs', g')"
    by (elim exE)
  with t obtain ls_cells ells where
    "map_of (if_none None (so_d_main_IDs ex_data)) ([''OffP''] ! 0) = Some ls_cells"
    and e: "get_rf_ells (keep_fitted ex_data ls_cells) (so_d_sta ex_data) (so_NOISE_GRID_SIZE ex_data) 2
             = Inr ells"
    and p: "map p_ellipse (patches (axs' ! 0)) = map p_ellipse (patches ([new_axes] ! 0)) @ ells"
    and ti: "title (axs' ! 0) = [''OffP''] ! 0 @ '' (n='' @
              str_nat (length (keep_fitted ex_data ls_cells)) @ '') RFs''"
    apply -
    apply (elim conjE)
    apply (drule_tac x = axs' in spec, drule_tac x = g' in spec, drule (1) mp)
    apply (elim exE conjE)
    apply (rule that; assumption)
    done
  then have c: "ls_cells = [7, 9, 3]"
    by (simp add: m)
  from e [unfolded c f] have e': "ells = [\<lparr> center = (10, 20), width = 120, height = 160, angle = 5 \<rparr>,
         \<lparr> center = (60, 10), width = 40, height = 80, angle = 0 \<rparr>]"
    by (simp add: ex_data_def ex_d_sta_def dict_get_def rf_ell_def)
  from p ti have rf: "title (axs' ! 0) = ''OffP (n=2) RFs'' \<and>
      map p_ellipse (patches (axs' ! 0)) =
        [\<lparr> center = (10, 20), width = 120, height = 160, angle = 5 \<rparr>,
         \<lparr> center = (60, 10), width = 40, height = 80, angle = 0 \<rparr>]"
    by (simp add: c f n e' new_axes_def)
  from ex_tcs_raw_run obtain axs2 where
    r2: "plot_type_tcs ex_data (Some [''OffP'']) None None (6 / 10) False None 1 None = Inr axs2"
    by (elim exE)
  with t obtain ls_cells2 where
    "map_of (so_d_main_IDs ex_data) ([''OffP''] ! 0) = Some ls_cells2"
    and l2: "map l_ydata (lines (axs2 ! 0)) = map l_ydata (lines ([new_axes] ! 0)) @
             (if False
              then []
              else concat (map (\<lambda>n_ID.
                     [Vec (RedTimeCourse (the (so_d_sta ex_data n_ID))),
                      Vec (BlueTimeCourse (the (so_d_sta ex_data n_ID)))])
                     (keep_fitted ex_data ls_cells2)))"
    and ti2: "title (axs2 ! 0) = [''OffP''] ! 0 @ '' (n='' @
              str_nat (length (keep_fitted ex_data ls_cells2)) @ '') timecourses''"
    apply -
    apply (elim conjE)
    apply (drule_tac x = axs2 in spec, drule (1) mp)
    apply (elim exE conjE)
    apply (rule that)
      apply assumption
     apply simp
    apply assumption
    done
  then have c2: "ls_cells2 = [7, 9, 3]"
    by (simp add: m)
  from l2 [unfolded c2 f] ti2 [unfolded c2 f] have tc: "title (axs2 ! 0) = ''OffP (n=2) timecourses'' \<and>
      map l_ydata (lines (axs2 ! 0)) = [Vec [1, 2, 3], Vec [3, 2, 1], Vec [3, 2, 1], Vec [1, 2, 3]]"
    by (simp add: n new_axes_def ex_data_def ex_d_sta_def)
  show ?thesis
    apply (rule conjI)
     apply (rule exI [of _ axs'], rule exI [of _ g'], rule conjI, rule r, rule rf)
    apply (rule exI [of _ axs2], rule conjI, rule r2, rule tc)
    done
qed

section \<open>The random generator\<close>




section \<open>Properties of the contrast-response renderer\<close>







end
